theory Spec2Isabelle
  imports Complex_Main "HOL-Library.Word"
begin

unbundle bit_operations_syntax

section \<open>The mixing engine of vgmstream (src/mixing.c)\<close>

text \<open>
  The C code works on \<^verbatim>\<open>int\<close>/\<^verbatim>\<open>int32_t\<close> positions and channel numbers, on
  \<^verbatim>\<open>float\<close>/\<^verbatim>\<open>double\<close> volumes and on 16-bit PCM samples. In this development
  \<^item> C integers are \<^typ>\<open>int\<close>. The arithmetic on playback positions (\<open>get_current_pos\<close>, the
    end of the call's range, the position of each sample) wraps around at 32 bits, written
    out with \<open>int32\<close>; channel numbers, counts and fade boundaries are computed exactly;
  \<^item> \<^verbatim>\<open>float\<close> and \<^verbatim>\<open>double\<close> values are \<^typ>\<open>real\<close>: rounding is not modelled, every
    arithmetic operation is the exact one;
  \<^item> a PCM sample (\<^verbatim>\<open>sample_t\<close>, a 16-bit signed integer) is a \<^typ>\<open>16 word\<close> read with
    \<^const>\<open>sint\<close>, the channel bitmask (\<^verbatim>\<open>uint32_t\<close>) a \<^typ>\<open>32 word\<close>;
  \<^item> a buffer reached through a pointer (\<^verbatim>\<open>outbuf\<close>, \<^verbatim>\<open>mixbuf\<close>) is a store from
    offsets to values; its allocated size is not part of the model.
\<close>

subsection \<open>Data model\<close>

datatype mix_command_t =
  MIX_SWAP | MIX_ADD | MIX_VOLUME | MIX_LIMIT | MIX_UPMIX | MIX_DOWNMIX | MIX_KILLMIX | MIX_FADE

record mix_command_data =
  command :: mix_command_t
  ch_dst :: int
  ch_src :: int
  vol :: real
  vol_start :: real
  vol_end :: real
  shape :: char
  time_pre :: int
  time_start :: int
  time_end :: int
  time_post :: int

type_synonym sample_t = "16 word"

text \<open>
  \<^verbatim>\<open>mixing_chain\<close> is a fixed array of \<^verbatim>\<open>VGMSTREAM_MAX_MIXING\<close> slots of which the first
  \<^verbatim>\<open>mixing_count\<close> are in use; no function reads a slot at or beyond \<^verbatim>\<open>mixing_count\<close>.
  The record keeps the used prefix as a list, and \<open>mixing_count\<close> is its length.
\<close>

record mixing_data =
  mixing_channels :: int
  output_channels :: int
  mixing_on :: bool
  mixing_size :: int
  mixing_chain :: "mix_command_data list"
  mixbuf :: "int \<Rightarrow> real"

definition mixing_count :: "mixing_data \<Rightarrow> int" where
  "mixing_count data = int (length (mixing_chain data))"

text \<open>The fields of \<^verbatim>\<open>VGMSTREAM\<close> that mixing.c reads or writes. A null
  \<^verbatim>\<open>mixing_data\<close> pointer is \<open>None\<close>.\<close>

record VGMSTREAM =
  channels :: int
  sample_rate :: int
  loop_flag :: bool
  current_sample :: int
  loop_start_sample :: int
  loop_end_sample :: int
  loop_count :: int
  config_loop_count :: int
  channel_layout :: int
  mixing_data :: "mixing_data option"

definition VGMSTREAM_MAX_MIXING :: int where
  "VGMSTREAM_MAX_MIXING = 128"

definition INT_MAX :: int where
  "INT_MAX = 2147483647"

text \<open>\<^verbatim>\<open>mix_command_data mix = {0}\<close>: every field zero, the command the first enumerator.\<close>

definition mix_zero :: mix_command_data where
  "mix_zero = \<lparr> command = MIX_SWAP, ch_dst = 0, ch_src = 0, vol = 0, vol_start = 0, vol_end = 0,
      shape = CHR 0x00, time_pre = 0, time_start = 0, time_end = 0, time_post = 0 \<rparr>"

subsection \<open>Activity check and playback position\<close>

text \<open>The loop of \<^verbatim>\<open>is_active\<close> over the chain, first command first.\<close>

fun is_active_chain :: "mix_command_data list \<Rightarrow> int \<Rightarrow> int \<Rightarrow> bool" where
  "is_active_chain [] current_start current_end = False"
| "is_active_chain (mix # rest) current_start current_end =
     (if command mix \<noteq> MIX_FADE then True
      else
        let fade_start = (if time_pre mix < 0 then 0 else time_pre mix);
            fade_end = (if time_post mix < 0 then INT_MAX else time_post mix)
        in if current_start < fade_end \<and> current_end > fade_start then True
           else is_active_chain rest current_start current_end)"

definition is_active :: "mixing_data \<Rightarrow> int \<Rightarrow> int \<Rightarrow> bool" where
  "is_active data current_start current_end =
     is_active_chain (mixing_chain data) current_start current_end"

text \<open>The value a 32-bit signed integer holds after an operation whose exact result is
  \<open>x\<close>: two's complement wrap-around.\<close>

definition int32 :: "int \<Rightarrow> int" where
  "int32 x = (x + 2147483648) mod 4294967296 - 2147483648"

text \<open>Every operation of \<^verbatim>\<open>get_current_pos\<close> is on 32-bit integers, and so is the value it
  returns (\<^verbatim>\<open>int32_t current_pos\<close>).\<close>

definition get_current_pos :: "VGMSTREAM \<Rightarrow> int" where
  "get_current_pos vgmstream =
     (if loop_flag vgmstream \<and> current_sample vgmstream > loop_start_sample vgmstream then
        let loop_pre = loop_start_sample vgmstream;
            loop_into = int32 (current_sample vgmstream - loop_start_sample vgmstream);
            loop_samples = int32 (loop_end_sample vgmstream - loop_start_sample vgmstream)
        in int32 (int32 (loop_pre + loop_into) + int32 (loop_samples * loop_count vgmstream))
      else int32 (current_sample vgmstream))"

subsection \<open>Fade curve evaluator\<close>

text \<open>The \<^verbatim>\<open>switch (mix->shape)\<close> of \<^verbatim>\<open>get_fade_gain\<close>.\<close>

definition fade_shape_gain :: "char \<Rightarrow> real \<Rightarrow> real" where
  "fade_shape_gain sh index =
     (if sh = CHR ''E'' then exp (- 5.75646273248511 * (1 - index))
      else if sh = CHR ''L'' then 1 - exp (- 5.75646273248511 * index)
      else if sh = CHR ''H'' then (1 - cos (index * pi)) / 2
      else if sh = CHR ''Q'' then sin (index * pi / 2)
      else if sh = CHR ''p'' then 1 - sqrt (1 - index)
      else if sh = CHR ''P'' then 1 - (1 - index) * (1 - index)
      else index)"

text \<open>\<^verbatim>\<open>get_fade_gain\<close> returns 0 (here \<open>None\<close>) when the position is outside the envelope and
  1 with the volume in \<^verbatim>\<open>*out_cur_vol\<close> (here \<open>Some\<close>) otherwise.\<close>

definition get_fade_gain :: "mix_command_data \<Rightarrow> int \<Rightarrow> real option" where
  "get_fade_gain mix current_subpos =
     (if (current_subpos \<ge> time_pre mix \<or> time_pre mix < 0) \<and> current_subpos < time_start mix then
        Some (vol_start mix)
      else if current_subpos \<ge> time_end mix \<and> (current_subpos < time_post mix \<or> time_post mix < 0) then
        Some (vol_end mix)
      else if current_subpos \<ge> time_start mix \<and> current_subpos < time_end mix then
        let range_vol = vol_end mix - vol_start mix;
            range_dur = real_of_int (time_end mix - time_start mix);
            range_idx = (if vol_start mix < vol_end mix
                         then real_of_int (current_subpos - time_start mix)
                         else real_of_int (time_end mix - current_subpos));
            index = range_idx / range_dur;
            gain = fade_shape_gain (shape mix) index
        in if vol_start mix < vol_end mix then Some (vol_start mix + range_vol * gain)
           else Some (vol_end mix - range_vol * gain)
      else None)"

subsection \<open>Execution engine\<close>

text \<open>The cast \<^verbatim>\<open>(int32_t)f\<close> of a float: the value is truncated towards zero.\<close>

definition float_to_int32 :: "real \<Rightarrow> int" where
  "float_to_int32 f = (if 0 \<le> f then \<lfloor>f\<rfloor> else \<lceil>f\<rceil>)"

text \<open>Modelled from the spec: \<^verbatim>\<open>clamp16\<close> is declared in a header that is not among the
  sources; the final pass is described as "truncate to integer and clamp to the signed 16-bit
  range".\<close>

definition clamp16 :: "int \<Rightarrow> sample_t" where
  "clamp16 val = (if val > 32767 then 32767 else if val < - 32768 then - 32768 else word_of_int val)"

text \<open>The limiter applied to one lane by \<^verbatim>\<open>MIX_LIMIT\<close>.\<close>

definition limit_lane :: "real \<Rightarrow> real \<Rightarrow> real \<Rightarrow> real" where
  "limit_lane temp_max temp_min x =
     (if x > temp_max then temp_max else if x < temp_min then temp_min else x)"

text \<open>
  One command applied to the working row: the body of the \<^verbatim>\<open>switch (mix.command)\<close> in
  \<^verbatim>\<open>mix_vgmstream\<close>. \<open>stp\<close> is the offset of \<^verbatim>\<open>stpbuf\<close> inside \<^verbatim>\<open>mixbuf\<close>, so
  \<^verbatim>\<open>stpbuf[ch]\<close> is \<open>buf (stp + ch)\<close>; the second component is \<^verbatim>\<open>step_channels\<close>.
\<close>

definition mix_command ::
  "int \<Rightarrow> int \<Rightarrow> mix_command_data \<Rightarrow> (int \<Rightarrow> real) \<times> int \<Rightarrow> (int \<Rightarrow> real) \<times> int" where
  "mix_command current_subpos stp mix st =
     (case st of (buf, step_channels) \<Rightarrow>
       (case command mix of
          MIX_SWAP \<Rightarrow>
            (let temp_f = buf (stp + ch_dst mix);
                 buf1 = buf (stp + ch_dst mix := buf (stp + ch_src mix));
                 buf2 = buf1 (stp + ch_src mix := temp_f)
             in (buf2, step_channels))
        | MIX_ADD \<Rightarrow>
            (buf (stp + ch_dst mix := buf (stp + ch_dst mix) + buf (stp + ch_src mix) * vol mix),
             step_channels)
        | MIX_VOLUME \<Rightarrow>
            (if ch_dst mix < 0 then
               (fold (\<lambda>ch b. b (stp + ch := b (stp + ch) * vol mix)) [0..step_channels - 1] buf,
                step_channels)
             else
               (buf (stp + ch_dst mix := buf (stp + ch_dst mix) * vol mix), step_channels))
        | MIX_LIMIT \<Rightarrow>
            (let temp_max = 32767 * vol mix;
                 temp_min = - 32768 * vol mix
             in if ch_dst mix < 0 then
                  (fold (\<lambda>ch b. b (stp + ch := limit_lane temp_max temp_min (b (stp + ch))))
                     [0..step_channels - 1] buf,
                   step_channels)
                else
                  (buf (stp + ch_dst mix := limit_lane temp_max temp_min (buf (stp + ch_dst mix))),
                   step_channels))
        | MIX_UPMIX \<Rightarrow>
            (let step_channels1 = step_channels + 1;
                 buf1 = fold (\<lambda>ch b. b (stp + ch := b (stp + ch - 1)))
                          (rev [ch_dst mix + 1..step_channels1 - 1]) buf
             in (buf1 (stp + ch_dst mix := 0), step_channels1))
        | MIX_DOWNMIX \<Rightarrow>
            (let step_channels1 = step_channels - 1
             in (fold (\<lambda>ch b. b (stp + ch := b (stp + ch + 1)))
                   [ch_dst mix..step_channels1 - 1] buf,
                 step_channels1))
        | MIX_KILLMIX \<Rightarrow> (buf, ch_dst mix)
        | MIX_FADE \<Rightarrow>
            (case get_fade_gain mix current_subpos of
               None \<Rightarrow> (buf, step_channels)
             | Some cur_vol \<Rightarrow>
                 if ch_dst mix < 0 then
                   (fold (\<lambda>ch b. b (stp + ch := b (stp + ch) * cur_vol)) [0..step_channels - 1] buf,
                    step_channels)
                 else
                   (buf (stp + ch_dst mix := buf (stp + ch_dst mix) * cur_vol), step_channels))))"

text \<open>
  One iteration of the loop over \<open>s\<close>: the frame at \<^verbatim>\<open>temp_outbuf\<close> is copied into the row at
  \<^verbatim>\<open>temp_mixbuf\<close>, the chain is applied in order, and both cursors advance. The state is
  (\<^verbatim>\<open>mixbuf\<close> contents, \<^verbatim>\<open>temp_mixbuf\<close>, \<^verbatim>\<open>temp_outbuf\<close>).
\<close>

definition mix_sample ::
  "VGMSTREAM \<Rightarrow> mixing_data \<Rightarrow> (int \<Rightarrow> sample_t) \<Rightarrow> int \<Rightarrow> int \<Rightarrow>
     (int \<Rightarrow> real) \<times> int \<times> int \<Rightarrow> (int \<Rightarrow> real) \<times> int \<times> int" where
  "mix_sample vgmstream data outbuf current_pos s st =
     (case st of (buf, temp_mixbuf, temp_outbuf) \<Rightarrow>
        let step_channels = channels vgmstream;
            buf1 = fold (\<lambda>ch b. b (temp_mixbuf + ch := real_of_int (sint (outbuf (temp_outbuf + ch)))))
                     [0..step_channels - 1] buf;
            (buf2, step_channels1) =
               fold (mix_command (int32 (current_pos + s)) temp_mixbuf) (mixing_chain data)
                 (buf1, step_channels)
        in (buf2, temp_mixbuf + step_channels1, temp_outbuf + channels vgmstream))"

text \<open>The per-sample pass followed by the copy of the mix to the output.\<close>

definition mix_pass ::
  "(int \<Rightarrow> sample_t) \<Rightarrow> int \<Rightarrow> VGMSTREAM \<Rightarrow> mixing_data \<Rightarrow> int \<Rightarrow> (int \<Rightarrow> sample_t) \<times> VGMSTREAM" where
  "mix_pass outbuf sample_count vgmstream data current_pos =
     (let (buf, temp_mixbuf, temp_outbuf) =
            fold (mix_sample vgmstream data outbuf current_pos) [0..sample_count - 1] (mixbuf data, 0, 0);
          outbuf1 = fold (\<lambda>s ob. ob (s := clamp16 (float_to_int32 (buf s))))
                      [0..sample_count * output_channels data - 1] outbuf
      in (outbuf1, vgmstream \<lparr> mixing_data := Some (data \<lparr> mixbuf := buf \<rparr>) \<rparr>))"

definition mix_vgmstream ::
  "(int \<Rightarrow> sample_t) \<Rightarrow> int \<Rightarrow> VGMSTREAM \<Rightarrow> (int \<Rightarrow> sample_t) \<times> VGMSTREAM" where
  "mix_vgmstream outbuf sample_count vgmstream =
     (case mixing_data vgmstream of
        None \<Rightarrow> (outbuf, vgmstream)
      | Some data \<Rightarrow>
          if \<not> mixing_on data \<or> mixing_count data = 0 then (outbuf, vgmstream)
          else
            let current_pos = get_current_pos vgmstream
            in if \<not> is_active data current_pos (int32 (current_pos + sample_count))
               then (outbuf, vgmstream)
               else mix_pass outbuf sample_count vgmstream data current_pos)"

subsection \<open>Lifecycle\<close>

text \<open>\<open>alloc_ok\<close> says whether \<^verbatim>\<open>calloc\<close> (in \<open>mixing_init\<close>) or \<^verbatim>\<open>realloc\<close> (in
  \<open>mixing_setup\<close>) returned memory. A fresh \<^verbatim>\<open>calloc\<close> block is all zero.\<close>

definition mixing_init :: "VGMSTREAM \<Rightarrow> bool \<Rightarrow> VGMSTREAM" where
  "mixing_init vgmstream alloc_ok =
     (if \<not> alloc_ok then vgmstream
      else vgmstream \<lparr> mixing_data := Some
             \<lparr> mixing_channels = channels vgmstream,
               output_channels = channels vgmstream,
               mixing_on = False,
               mixing_size = VGMSTREAM_MAX_MIXING,
               mixing_chain = [],
               mixbuf = (\<lambda>_. 0) \<rparr> \<rparr>)"

definition mixing_update_channel :: "VGMSTREAM \<Rightarrow> VGMSTREAM" where
  "mixing_update_channel vgmstream =
     (case mixing_data vgmstream of
        None \<Rightarrow> vgmstream
      | Some data \<Rightarrow>
          vgmstream \<lparr> mixing_data := Some
            (data \<lparr> mixing_channels := mixing_channels data + 1,
                    output_channels := output_channels data + 1 \<rparr>) \<rparr>)"

text \<open>\<^verbatim>\<open>mixing_setup\<close> also clears the layout of \<^verbatim>\<open>start_vgmstream\<close>, another stream
  object that no function of this file reads. What \<^verbatim>\<open>realloc\<close> leaves in the buffer is not
  specified; the store is kept as it was.\<close>

definition mixing_setup :: "VGMSTREAM \<Rightarrow> int \<Rightarrow> bool \<Rightarrow> VGMSTREAM" where
  "mixing_setup vgmstream max_sample_count alloc_ok =
     (case mixing_data vgmstream of
        None \<Rightarrow> vgmstream
      | Some data \<Rightarrow>
          let vgmstream1 =
                (if channel_layout vgmstream \<noteq> 0 \<and> channels vgmstream \<noteq> output_channels data
                 then vgmstream \<lparr> channel_layout := 0 \<rparr> else vgmstream)
          in if max_sample_count \<le> 0 then vgmstream1
             else if \<not> alloc_ok then vgmstream1
             else vgmstream1 \<lparr> mixing_data := Some (data \<lparr> mixing_on := True \<rparr>) \<rparr>)"

definition mixing_info :: "VGMSTREAM \<Rightarrow> (int \<times> int) option" where
  "mixing_info vgmstream =
     (case mixing_data vgmstream of
        None \<Rightarrow> None
      | Some data \<Rightarrow>
          let output_channels1 = output_channels data;
              input_channels = (if output_channels data > channels vgmstream
                                then output_channels data else channels vgmstream)
          in Some (input_channels, output_channels1))"

subsection \<open>Chain builder\<close>

text \<open>\<^verbatim>\<open>add_mixing\<close> returns 1 (here \<open>True\<close>) when the command was stored.\<close>

definition add_mixing :: "VGMSTREAM \<Rightarrow> mix_command_data \<Rightarrow> bool \<times> VGMSTREAM" where
  "add_mixing vgmstream mix =
     (case mixing_data vgmstream of
        None \<Rightarrow> (False, vgmstream)
      | Some data \<Rightarrow>
          if mixing_on data then (False, vgmstream)
          else if mixing_count data + 1 > mixing_size data then (False, vgmstream)
          else (True, vgmstream \<lparr> mixing_data := Some
                        (data \<lparr> mixing_chain := mixing_chain data @ [mix] \<rparr>) \<rparr>))"

definition mixing_push_swap :: "VGMSTREAM \<Rightarrow> int \<Rightarrow> int \<Rightarrow> VGMSTREAM" where
  "mixing_push_swap vgmstream ch_dst_arg ch_src_arg =
     (if ch_dst_arg < 0 \<or> ch_src_arg < 0 \<or> ch_dst_arg = ch_src_arg then vgmstream
      else case mixing_data vgmstream of
        None \<Rightarrow> vgmstream
      | Some data \<Rightarrow>
          if ch_dst_arg \<ge> output_channels data \<or> ch_src_arg \<ge> output_channels data then vgmstream
          else snd (add_mixing vgmstream
                 (mix_zero \<lparr> command := MIX_SWAP, ch_dst := ch_dst_arg, ch_src := ch_src_arg \<rparr>)))"

definition mixing_push_add :: "VGMSTREAM \<Rightarrow> int \<Rightarrow> int \<Rightarrow> real \<Rightarrow> VGMSTREAM" where
  "mixing_push_add vgmstream ch_dst_arg ch_src_arg volume =
     (case mixing_data vgmstream of
        None \<Rightarrow> vgmstream
      | Some data \<Rightarrow>
          if volume = 0 then vgmstream
          else if ch_dst_arg < 0 \<or> ch_src_arg < 0 then vgmstream
          else if ch_dst_arg \<ge> output_channels data \<or> ch_src_arg \<ge> output_channels data then vgmstream
          else snd (add_mixing vgmstream
                 (mix_zero \<lparr> command := MIX_ADD, ch_dst := ch_dst_arg, ch_src := ch_src_arg,
                             vol := volume \<rparr>)))"

definition mixing_push_volume :: "VGMSTREAM \<Rightarrow> int \<Rightarrow> real \<Rightarrow> VGMSTREAM" where
  "mixing_push_volume vgmstream ch_dst_arg volume =
     (if volume = 1 then vgmstream
      else case mixing_data vgmstream of
        None \<Rightarrow> vgmstream
      | Some data \<Rightarrow>
          if ch_dst_arg \<ge> output_channels data then vgmstream
          else snd (add_mixing vgmstream
                 (mix_zero \<lparr> command := MIX_VOLUME, ch_dst := ch_dst_arg, vol := volume \<rparr>)))"

definition mixing_push_limit :: "VGMSTREAM \<Rightarrow> int \<Rightarrow> real \<Rightarrow> VGMSTREAM" where
  "mixing_push_limit vgmstream ch_dst_arg volume =
     (if volume < 0 then vgmstream
      else if volume = 1 then vgmstream
      else case mixing_data vgmstream of
        None \<Rightarrow> vgmstream
      | Some data \<Rightarrow>
          if ch_dst_arg \<ge> output_channels data then vgmstream
          else snd (add_mixing vgmstream
                 (mix_zero \<lparr> command := MIX_LIMIT, ch_dst := ch_dst_arg, vol := volume \<rparr>)))"

text \<open>\<^verbatim>\<open>VGMSTREAM_MAX_CHANNELS\<close> is defined in a header that is not among the sources; it is
  the first parameter \<open>max_channels\<close> of every function that reaches \<open>mixing_push_upmix\<close>.\<close>

definition mixing_push_upmix :: "int \<Rightarrow> VGMSTREAM \<Rightarrow> int \<Rightarrow> VGMSTREAM" where
  "mixing_push_upmix max_channels vgmstream ch_dst_arg =
     (if ch_dst_arg < 0 then vgmstream
      else case mixing_data vgmstream of
        None \<Rightarrow> vgmstream
      | Some data \<Rightarrow>
          if ch_dst_arg > output_channels data \<or> output_channels data + 1 > max_channels then vgmstream
          else
            (case add_mixing vgmstream (mix_zero \<lparr> command := MIX_UPMIX, ch_dst := ch_dst_arg \<rparr>) of
               (ok, vgmstream1) \<Rightarrow>
                 if ok then
                   (case mixing_data vgmstream1 of
                      None \<Rightarrow> vgmstream1
                    | Some data1 \<Rightarrow>
                        let data2 = data1 \<lparr> output_channels := output_channels data1 + 1 \<rparr>;
                            data3 = (if mixing_channels data2 < output_channels data2
                                     then data2 \<lparr> mixing_channels := output_channels data2 \<rparr>
                                     else data2)
                        in vgmstream1 \<lparr> mixing_data := Some data3 \<rparr>)
                 else vgmstream1))"

definition mixing_push_downmix :: "VGMSTREAM \<Rightarrow> int \<Rightarrow> VGMSTREAM" where
  "mixing_push_downmix vgmstream ch_dst_arg =
     (if ch_dst_arg < 0 then vgmstream
      else case mixing_data vgmstream of
        None \<Rightarrow> vgmstream
      | Some data \<Rightarrow>
          if ch_dst_arg \<ge> output_channels data \<or> output_channels data - 1 < 1 then vgmstream
          else
            (case add_mixing vgmstream (mix_zero \<lparr> command := MIX_DOWNMIX, ch_dst := ch_dst_arg \<rparr>) of
               (ok, vgmstream1) \<Rightarrow>
                 if ok then
                   (case mixing_data vgmstream1 of
                      None \<Rightarrow> vgmstream1
                    | Some data1 \<Rightarrow>
                        vgmstream1 \<lparr> mixing_data := Some
                          (data1 \<lparr> output_channels := output_channels data1 - 1 \<rparr>) \<rparr>)
                 else vgmstream1))"

definition mixing_push_killmix :: "VGMSTREAM \<Rightarrow> int \<Rightarrow> VGMSTREAM" where
  "mixing_push_killmix vgmstream ch_dst_arg =
     (if ch_dst_arg \<le> 0 then vgmstream
      else case mixing_data vgmstream of
        None \<Rightarrow> vgmstream
      | Some data \<Rightarrow>
          if ch_dst_arg \<ge> output_channels data then vgmstream
          else
            (case add_mixing vgmstream (mix_zero \<lparr> command := MIX_KILLMIX, ch_dst := ch_dst_arg \<rparr>) of
               (ok, vgmstream1) \<Rightarrow>
                 if ok then
                   (case mixing_data vgmstream1 of
                      None \<Rightarrow> vgmstream1
                    | Some data1 \<Rightarrow>
                        vgmstream1 \<lparr> mixing_data := Some (data1 \<lparr> output_channels := ch_dst_arg \<rparr>) \<rparr>)
                 else vgmstream1))"

text \<open>\<^verbatim>\<open>get_last_fade\<close> scans from slot \<open>i - 1\<close> down to slot 0 and returns a pointer to the
  slot it finds; here it returns the slot's index.\<close>

fun get_last_fade_from :: "mix_command_data list \<Rightarrow> nat \<Rightarrow> int \<Rightarrow> nat option" where
  "get_last_fade_from chain 0 target_channel = None"
| "get_last_fade_from chain (Suc i) target_channel =
     (if command (chain ! i) \<noteq> MIX_FADE then get_last_fade_from chain i target_channel
      else if ch_dst (chain ! i) = target_channel then Some i
      else get_last_fade_from chain i target_channel)"

definition get_last_fade :: "mixing_data \<Rightarrow> int \<Rightarrow> nat option" where
  "get_last_fade data target_channel =
     get_last_fade_from (mixing_chain data) (length (mixing_chain data)) target_channel"

text \<open>
  The block of \<^verbatim>\<open>mixing_push_fade\<close> guarded by \<^verbatim>\<open>is_prev\<close>: the open boundaries of the
  previous fade and of the new one are set to actual points. The first test is written in the
  source with the same operand twice. Returns the (previous, new) commands.
\<close>

definition fade_stitch :: "mix_command_data \<Rightarrow> mix_command_data \<Rightarrow> mix_command_data \<times> mix_command_data" where
  "fade_stitch mix_prev mix =
     (let (mix_prev1, mix1) =
            (if time_post mix_prev < 0 \<and> time_post mix_prev < 0 then
               let mix_prev_a = mix_prev \<lparr> time_post := time_end mix_prev \<rparr>
               in (mix_prev_a, mix \<lparr> time_pre := time_post mix_prev_a \<rparr>)
             else (mix_prev, mix))
      in if time_post mix_prev1 \<ge> 0 \<and> time_pre mix1 < 0 then
           (mix_prev1, mix1 \<lparr> time_pre := time_post mix_prev1 \<rparr>)
         else if time_post mix_prev1 < 0 \<and> time_pre mix1 \<ge> 0 then
           (mix_prev1 \<lparr> time_post := time_pre mix1 \<rparr>, mix1)
         else (mix_prev1, mix1))"

text \<open>
  In the branch without a previous fade the source assigns to its parameters
  \<^verbatim>\<open>time_pre\<close> and \<^verbatim>\<open>time_post\<close> after they were copied into \<^verbatim>\<open>mix\<close>; the two
  values (\<open>time_pre1\<close>, \<open>time_post1\<close>) are not read again. In the branch with a previous fade
  the slot of the previous fade is written before \<^verbatim>\<open>add_mixing\<close> is called.
\<close>

definition mixing_push_fade ::
  "VGMSTREAM \<Rightarrow> int \<Rightarrow> real \<Rightarrow> real \<Rightarrow> char \<Rightarrow> int \<Rightarrow> int \<Rightarrow> int \<Rightarrow> int \<Rightarrow> VGMSTREAM" where
  "mixing_push_fade vgmstream ch_dst_arg vol_start_arg vol_end_arg shape_arg
       time_pre_arg time_start_arg time_end_arg time_post_arg =
     (case mixing_data vgmstream of
        None \<Rightarrow> vgmstream
      | Some data \<Rightarrow>
          if ch_dst_arg \<ge> output_channels data then vgmstream
          else if time_pre_arg > time_start_arg \<or> time_start_arg > time_end_arg \<or>
                  (time_post_arg \<ge> 0 \<and> time_end_arg > time_post_arg) then vgmstream
          else if time_start_arg < 0 \<or> time_end_arg < 0 then vgmstream
          else
            let shape1 = (if shape_arg = CHR ''{'' \<or> shape_arg = CHR ''}'' then CHR ''E'' else shape_arg);
                shape2 = (if shape1 = CHR ''('' \<or> shape1 = CHR '')'' then CHR ''H'' else shape1);
                mix = mix_zero \<lparr> command := MIX_FADE, ch_dst := ch_dst_arg,
                        vol_start := vol_start_arg, vol_end := vol_end_arg, shape := shape2,
                        time_pre := time_pre_arg, time_start := time_start_arg,
                        time_end := time_end_arg, time_post := time_post_arg \<rparr>
            in case get_last_fade data (ch_dst mix) of
                 None \<Rightarrow>
                   let time_pre1 = (if vol_start_arg = 1 \<and> time_pre_arg < 0
                                    then time_start_arg else time_pre_arg);
                       time_post1 = (if vol_end_arg = 1 \<and> time_post_arg < 0
                                     then time_end_arg else time_post_arg)
                   in snd (add_mixing vgmstream mix)
               | Some i \<Rightarrow>
                   let mix_prev = mixing_chain data ! i
                   in if time_post mix_prev < 0 \<or> time_pre mix < 0 then
                        let is_prev =
                              (\<not> (time_end mix_prev > time_start mix \<or>
                                  (time_post mix_prev \<ge> 0 \<and> time_post mix_prev > time_start mix) \<or>
                                  (time_pre mix \<ge> 0 \<and> time_pre mix < time_end mix_prev)))
                        in if is_prev then
                             (case fade_stitch mix_prev mix of
                                (mix_prev1, mix1) \<Rightarrow>
                                  snd (add_mixing
                                    (vgmstream \<lparr> mixing_data := Some
                                       (data \<lparr> mixing_chain := (mixing_chain data) [i := mix_prev1] \<rparr>) \<rparr>)
                                    mix1))
                           else snd (add_mixing vgmstream mix)
                      else snd (add_mixing vgmstream mix))"

subsection \<open>Macros\<close>

text \<open>\<^verbatim>\<open>(mask >> ch) & 1\<close> on the 32-bit mask. A shift by 32 or more has no defined result in
  C; \<^const>\<open>drop_bit\<close> gives 0 there.\<close>

definition mask_bit :: "32 word \<Rightarrow> int \<Rightarrow> int" where
  "mask_bit mask_arg ch = uint (drop_bit (nat ch) mask_arg AND 1)"

text \<open>The loop bound \<^verbatim>\<open>data->output_channels\<close> of \<^verbatim>\<open>mixing_macro_volume\<close> is read at every
  iteration; \<open>mixing_push_volume\<close> does not change it, so the range is the one at entry.\<close>

definition mixing_macro_volume :: "VGMSTREAM \<Rightarrow> real \<Rightarrow> 32 word \<Rightarrow> VGMSTREAM" where
  "mixing_macro_volume vgmstream volume mask_arg =
     (case mixing_data vgmstream of
        None \<Rightarrow> vgmstream
      | Some data \<Rightarrow>
          if mask_arg = 0 then mixing_push_volume vgmstream (- 1) volume
          else fold (\<lambda>ch v. if mask_bit mask_arg ch = 0 then v else mixing_push_volume v ch volume)
                 [0..output_channels data - 1] vgmstream)"

definition mixing_macro_track :: "VGMSTREAM \<Rightarrow> 32 word \<Rightarrow> VGMSTREAM" where
  "mixing_macro_track vgmstream mask_arg =
     (case mixing_data vgmstream of
        None \<Rightarrow> vgmstream
      | Some data \<Rightarrow>
          if mask_arg = 0 then vgmstream
          else fold (\<lambda>ch v. if mask_bit mask_arg ch \<noteq> 0 then v else mixing_push_downmix v ch)
                 (rev [0..output_channels data - 1]) vgmstream)"

text \<open>
  The volume of one layer in \<^verbatim>\<open>mixing_macro_layer\<close>. In mode 'b' on a main channel the source
  computes \<^verbatim>\<open>selected_channels % (channel_mixes * max)\<close> before it guards
  \<^verbatim>\<open>channel_mixes\<close> against 0; a remainder by 0 stops the program, which is \<open>None\<close> here.
\<close>

definition layer_volume :: "char \<Rightarrow> int \<Rightarrow> int \<Rightarrow> int \<Rightarrow> int \<Rightarrow> real option" where
  "layer_volume mode ch max_arg current selected_channels =
     (let volume0 = (1 :: real);
          volume_b =
            (if mode = CHR ''b'' \<and> ch < max_arg then
               let channel_mixes = selected_channels div max_arg
               in if channel_mixes * max_arg = 0 then None
                  else
                    let channel_mixes1 = (if current < selected_channels mod (channel_mixes * max_arg)
                                          then channel_mixes + 1 else channel_mixes);
                        channel_mixes2 = channel_mixes1 - 1;
                        channel_mixes3 = (if channel_mixes2 \<le> 0 then 1 else channel_mixes2)
                    in Some (1 / sqrt (real_of_int channel_mixes3))
             else Some volume0)
      in case volume_b of
           None \<Rightarrow> None
         | Some volume1 \<Rightarrow>
             if (mode = CHR ''b'' \<and> ch \<ge> max_arg) \<or> mode = CHR ''e'' then
               let channel_mixes = selected_channels div max_arg;
                   channel_mixes1 = (if channel_mixes \<le> 0 then 1 else channel_mixes);
                   channel_mixes2 = (if current < selected_channels mod (channel_mixes1 * max_arg)
                                     then channel_mixes1 + 1 else channel_mixes1)
               in Some (1 / sqrt (real_of_int channel_mixes2))
             else Some volume1)"

text \<open>The loop of \<^verbatim>\<open>mixing_macro_layer\<close> that adds the layers; the state is the stream and
  \<^verbatim>\<open>current\<close>.\<close>

fun layer_add_loop ::
  "char \<Rightarrow> int \<Rightarrow> 32 word \<Rightarrow> int \<Rightarrow> int list \<Rightarrow> VGMSTREAM \<times> int \<Rightarrow> (VGMSTREAM \<times> int) option" where
  "layer_add_loop mode max_arg mask_arg selected_channels [] st = Some st"
| "layer_add_loop mode max_arg mask_arg selected_channels (ch # chs) st =
     (case st of (vgmstream, current) \<Rightarrow>
        if mask_bit mask_arg ch = 0 then layer_add_loop mode max_arg mask_arg selected_channels chs st
        else
          (case layer_volume mode ch max_arg current selected_channels of
             None \<Rightarrow> None
           | Some volume \<Rightarrow>
               let vgmstream1 = mixing_push_add vgmstream current (max_arg + ch) volume;
                   current1 = current + 1;
                   current2 = (if current1 \<ge> max_arg then 0 else current1)
               in layer_add_loop mode max_arg mask_arg selected_channels chs (vgmstream1, current2)))"

definition mixing_macro_layer ::
  "int \<Rightarrow> VGMSTREAM \<Rightarrow> int \<Rightarrow> 32 word \<Rightarrow> char \<Rightarrow> VGMSTREAM option" where
  "mixing_macro_layer max_channels vgmstream max_arg mask_arg mode =
     (case mixing_data vgmstream of
        None \<Rightarrow> Some vgmstream
      | Some data \<Rightarrow>
          if max_arg \<le> 0 \<or> output_channels data \<le> max_arg then Some vgmstream
          else
            let mask1 = (if mask_arg = 0 then NOT mask_arg else mask_arg);
                output_channels1 = output_channels data;
                selected_channels = fold (\<lambda>ch n. n + mask_bit mask1 ch) [0..output_channels1 - 1] 0;
                vgmstream1 = fold (\<lambda>ch v. mixing_push_upmix max_channels v 0) [0..max_arg - 1] vgmstream
            in case layer_add_loop mode max_arg mask1 selected_channels
                      [0..output_channels1 - 1] (vgmstream1, 0) of
                 None \<Rightarrow> None
               | Some (vgmstream2, current) \<Rightarrow> Some (mixing_push_killmix vgmstream2 max_arg))"

text \<open>The loop shared by the two crossfade macros that mixes all tracks into the first
  \<^verbatim>\<open>max\<close> channels; the state is the stream and \<^verbatim>\<open>current\<close>.\<close>

definition cross_add :: "int \<Rightarrow> int \<Rightarrow> VGMSTREAM \<times> int \<Rightarrow> VGMSTREAM \<times> int" where
  "cross_add max_arg ch st =
     (case st of (vgmstream, current) \<Rightarrow>
        let vgmstream1 = mixing_push_add vgmstream current ch 1;
            current1 = current + 1;
            current2 = (if current1 \<ge> max_arg then 0 else current1)
        in (vgmstream1, current2))"

text \<open>The body of the loop over \<^verbatim>\<open>track\<close> in \<^verbatim>\<open>mixing_macro_crosstrack\<close>; the state is the
  stream and \<^verbatim>\<open>ch\<close>. \<^verbatim>\<open>change_time\<close> is the product \<^verbatim>\<open>15.0 * sample_rate\<close> converted
  to an integer.\<close>

definition crosstrack_track :: "int \<Rightarrow> int \<Rightarrow> int \<Rightarrow> VGMSTREAM \<times> int \<Rightarrow> VGMSTREAM \<times> int" where
  "crosstrack_track max_arg track_num track st =
     (case st of (vgmstream, ch) \<Rightarrow>
        let volume = (1 :: real);
            loop_pre = loop_start_sample vgmstream;
            loop_samples = loop_end_sample vgmstream - loop_start_sample vgmstream;
            change_pos = loop_pre + loop_samples * track;
            change_next = loop_pre + loop_samples * (track + 1);
            change_time = 15 * sample_rate vgmstream;
            vgmstream1 =
              fold (\<lambda>track_ch v.
                      let v1 = (if track > 0
                                then mixing_push_fade v (ch + track_ch) 0 volume (CHR ''('')
                                       (- 1) change_pos (change_pos + change_time) (- 1)
                                else v)
                      in if track + 1 < track_num
                         then mixing_push_fade v1 (ch + track_ch) volume 0 (CHR '')'')
                                (- 1) change_next (change_next + change_time) (- 1)
                         else v1)
                   [0..max_arg - 1] vgmstream
        in (vgmstream1, ch + max_arg))"

definition mixing_macro_crosstrack :: "int \<Rightarrow> VGMSTREAM \<Rightarrow> int \<Rightarrow> VGMSTREAM" where
  "mixing_macro_crosstrack max_channels vgmstream max_arg =
     (case mixing_data vgmstream of
        None \<Rightarrow> vgmstream
      | Some data \<Rightarrow>
          if max_arg \<le> 0 \<or> output_channels data \<le> max_arg then vgmstream
          else if \<not> loop_flag vgmstream then vgmstream
          else
            let output_channels0 = output_channels data;
                (vgmstream1, output_channels1) =
                   (if output_channels0 mod 2 \<noteq> 0
                    then (mixing_push_upmix max_channels vgmstream output_channels0, output_channels0 + 1)
                    else (vgmstream, output_channels0));
                track_num = output_channels1 div max_arg;
                vgmstream2 = (if config_loop_count vgmstream1 < track_num
                              then vgmstream1 \<lparr> config_loop_count := track_num \<rparr> else vgmstream1);
                (vgmstream3, ch) = fold (crosstrack_track max_arg track_num) [0..track_num - 1] (vgmstream2, 0);
                (vgmstream4, current) = fold (cross_add max_arg) [max_arg..output_channels1 - 1] (vgmstream3, 0)
            in mixing_push_killmix vgmstream4 max_arg)"

text \<open>The body of the loop over \<^verbatim>\<open>layer\<close> in \<^verbatim>\<open>mixing_macro_crosslayer\<close>; the state is the
  stream, \<^verbatim>\<open>ch\<close>, \<^verbatim>\<open>volume1\<close> and \<^verbatim>\<open>volume2\<close>. A layer that is not playing yet leaves
  the loop body through \<^verbatim>\<open>continue\<close>, before \<^verbatim>\<open>ch\<close> is advanced.\<close>

definition crosslayer_layer ::
  "int \<Rightarrow> char \<Rightarrow> int \<Rightarrow> int \<Rightarrow> int \<Rightarrow> int \<Rightarrow>
     VGMSTREAM \<times> int \<times> real \<times> real \<Rightarrow> VGMSTREAM \<times> int \<times> real \<times> real" where
  "crosslayer_layer max_arg mode loop change_pos change_time layer st =
     (case st of (vgmstream, ch, volume1, volume2) \<Rightarrow>
        let (volume1a, volume2a) =
              (if mode = CHR ''b'' then
                 (if layer = 0 then
                    (1 / sqrt (real_of_int (if loop - 1 \<le> 0 then 1 else loop - 1)),
                     1 / sqrt (real_of_int (loop + 0)))
                  else (1 / sqrt (real_of_int (loop + 0)), 1 / sqrt (real_of_int (loop + 1))))
               else (volume1, volume2))
        in if layer > loop then (vgmstream, ch, volume1a, volume2a)
           else
             let (volume1b, type) = (if layer = loop then (0, CHR ''('') else (volume1a, CHR '')''));
                 vgmstream1 =
                   fold (\<lambda>layer_ch v. mixing_push_fade v (ch + layer_ch) volume1b volume2a type
                                         (- 1) change_pos (change_pos + change_time) (- 1))
                        [0..max_arg - 1] vgmstream
             in (vgmstream1, ch + max_arg, volume1b, volume2a))"

text \<open>The body of the loop over \<^verbatim>\<open>loop\<close> in \<^verbatim>\<open>mixing_macro_crosslayer\<close>.\<close>

definition crosslayer_loop :: "int \<Rightarrow> char \<Rightarrow> int \<Rightarrow> int \<Rightarrow> VGMSTREAM \<Rightarrow> VGMSTREAM" where
  "crosslayer_loop max_arg mode layer_num loop vgmstream =
     (let loop_pre = loop_start_sample vgmstream;
          loop_samples = loop_end_sample vgmstream - loop_start_sample vgmstream;
          change_pos = loop_pre + loop_samples * loop;
          change_time = 10 * sample_rate vgmstream;
          (volume1, volume2) =
             (if mode = CHR ''e''
              then (1 / sqrt (real_of_int (loop + 0)), 1 / sqrt (real_of_int (loop + 1)))
              else (1, 1))
      in fst (fold (crosslayer_layer max_arg mode loop change_pos change_time)
                [0..layer_num - 1] (vgmstream, 0, volume1, volume2)))"

definition mixing_macro_crosslayer :: "int \<Rightarrow> VGMSTREAM \<Rightarrow> int \<Rightarrow> char \<Rightarrow> VGMSTREAM" where
  "mixing_macro_crosslayer max_channels vgmstream max_arg mode =
     (case mixing_data vgmstream of
        None \<Rightarrow> vgmstream
      | Some data \<Rightarrow>
          if max_arg \<le> 0 \<or> output_channels data \<le> max_arg then vgmstream
          else if \<not> loop_flag vgmstream then vgmstream
          else
            let output_channels0 = output_channels data;
                (vgmstream1, output_channels1) =
                   (if output_channels0 mod 2 \<noteq> 0
                    then (mixing_push_upmix max_channels vgmstream output_channels0, output_channels0 + 1)
                    else (vgmstream, output_channels0));
                layer_num = output_channels1 div max_arg;
                vgmstream2 = (if config_loop_count vgmstream1 < layer_num
                              then vgmstream1 \<lparr> config_loop_count := layer_num \<rparr> else vgmstream1);
                vgmstream3 = fold (crosslayer_loop max_arg mode layer_num) [1..layer_num - 1] vgmstream2;
                (vgmstream4, current) = fold (cross_add max_arg) [max_arg..output_channels1 - 1] (vgmstream3, 0)
            in mixing_push_killmix vgmstream4 max_arg)"

subsection \<open>Concrete inputs\<close>

text \<open>A stream with \<open>n\<close> channels that does not loop and has no mixing state yet.\<close>

definition example_stream :: "int \<Rightarrow> VGMSTREAM" where
  "example_stream n = \<lparr> channels = n, sample_rate = 44100, loop_flag = False, current_sample = 0,
      loop_start_sample = 0, loop_end_sample = 0, loop_count = 0, config_loop_count = 0,
      channel_layout = 0, mixing_data = None \<rparr>"

subsection \<open>Predicates used in the statements\<close>

text \<open>The channel counters are consistent: at least one output channel, and the buffer width
  covers the output. A stream without mixing state has no counters.\<close>

definition channels_inv :: "VGMSTREAM \<Rightarrow> bool" where
  "channels_inv vgmstream =
     (case mixing_data vgmstream of
        None \<Rightarrow> True
      | Some data \<Rightarrow> 1 \<le> output_channels data \<and> output_channels data \<le> mixing_channels data)"

text \<open>The effective active window of a fade, as the activity check computes it: from
  \<open>time_pre\<close> if set (not negative), else 0, up to \<open>time_post\<close> if set, else without end.\<close>

definition fade_window :: "mix_command_data \<Rightarrow> int \<Rightarrow> bool" where
  "fade_window mix p =
     ((if time_pre mix < 0 then 0 else time_pre mix) \<le> p \<and> (time_post mix < 0 \<or> p < time_post mix))"

text \<open>The order of the four boundaries that \<open>mixing_push_fade\<close> checks before it stores a
  fade.\<close>

definition fade_ordered :: "mix_command_data \<Rightarrow> bool" where
  "fade_ordered mix =
     (time_pre mix \<le> time_start mix \<and> time_start mix \<le> time_end mix \<and>
      (0 \<le> time_post mix \<longrightarrow> time_end mix \<le> time_post mix))"

text \<open>Every fade stored in the chain has its boundaries in order and a fade end that is not
  negative.\<close>

definition chain_ordered :: "VGMSTREAM \<Rightarrow> bool" where
  "chain_ordered vgmstream =
     (case mixing_data vgmstream of
        None \<Rightarrow> True
      | Some data \<Rightarrow>
          (\<forall>m \<in> set (mixing_chain data). command m = MIX_FADE \<longrightarrow> fade_ordered m \<and> 0 \<le> time_end m))"

text \<open>The output width is the stream's channel count, as initialisation leaves it.\<close>

definition width_initial :: "VGMSTREAM \<Rightarrow> bool" where
  "width_initial vgmstream =
     (case mixing_data vgmstream of
        None \<Rightarrow> True
      | Some data \<Rightarrow> output_channels data = channels vgmstream)"

section \<open>Properties\<close>

subsection \<open>Fade curve evaluator\<close>

text \<open>
  C1. Inside the window (\<open>time_start \<le> pos < time_end\<close>) the evaluator returns a volume computed
  from the normalised index \<open>(pos - start) / (end - start)\<close> for a fade-in
  (\<open>vol_start < vol_end\<close>) and \<open>(end - pos) / (end - start)\<close> otherwise; the shape 'T' maps
  the index to itself; the fade-out from 1 to 0 over \<open>[0, 100)\<close> gives 0.5 at position 50.
  Before the window (with \<open>pos\<close> at or after \<open>time_pre\<close>, or \<open>time_pre\<close> open, that is negative)
  it returns \<open>vol_start\<close>; from \<open>time_end\<close> up to \<open>time_post\<close> (or \<open>time_post\<close> open) it
  returns \<open>vol_end\<close>; outside \<open>[time_pre, time_post)\<close> it returns "not applicable". The last two
  parts are about envelopes ordered as the constructor checks them
  (\<open>time_pre \<le> time_start \<le> time_end\<close>, and \<open>time_end \<le> time_post\<close> when \<open>time_post\<close> is set).
\<close>

theorem get_fade_gain_regions:
  "(time_start mix \<le> pos \<and> pos < time_end mix \<longrightarrow>
      get_fade_gain mix pos = Some
        (if vol_start mix < vol_end mix
         then vol_start mix + (vol_end mix - vol_start mix) *
                fade_shape_gain (shape mix)
                  (real_of_int (pos - time_start mix) / real_of_int (time_end mix - time_start mix))
         else vol_end mix - (vol_end mix - vol_start mix) *
                fade_shape_gain (shape mix)
                  (real_of_int (time_end mix - pos) / real_of_int (time_end mix - time_start mix))))
   \<and> fade_shape_gain (CHR ''T'') index = index
   \<and> get_fade_gain (mix_zero \<lparr> command := MIX_FADE, ch_dst := - 1, vol_start := 1, vol_end := 0,
          shape := CHR ''T'', time_pre := - 1, time_start := 0, time_end := 100, time_post := - 1 \<rparr>) 50
       = Some (1 / 2)
   \<and> (pos < time_start mix \<and> (time_pre mix \<le> pos \<or> time_pre mix < 0) \<longrightarrow>
        get_fade_gain mix pos = Some (vol_start mix))
   \<and> (time_start mix \<le> time_end mix \<and> time_end mix \<le> pos \<and>
        (pos < time_post mix \<or> time_post mix < 0) \<longrightarrow>
        get_fade_gain mix pos = Some (vol_end mix))
   \<and> (time_pre mix \<le> time_start mix \<and> time_start mix \<le> time_end mix \<and>
        (0 \<le> time_post mix \<longrightarrow> time_end mix \<le> time_post mix) \<and>
        ((0 \<le> time_pre mix \<and> pos < time_pre mix) \<or> (0 \<le> time_post mix \<and> time_post mix \<le> pos)) \<longrightarrow>
        get_fade_gain mix pos = None)"
proof (intro conjI impI)
  show "fade_shape_gain (CHR ''T'') index = index"
    by (simp add: fade_shape_gain_def)
  show "get_fade_gain (mix_zero \<lparr> command := MIX_FADE, ch_dst := - 1, vol_start := 1, vol_end := 0,
          shape := CHR ''T'', time_pre := - 1, time_start := 0, time_end := 100, time_post := - 1 \<rparr>) 50
       = Some (1 / 2)"
    by (simp add: get_fade_gain_def fade_shape_gain_def mix_zero_def Let_def)
qed (auto simp: get_fade_gain_def Let_def)

theorem get_fade_gain_regions_witness:
  "get_fade_gain (mix_zero \<lparr> command := MIX_FADE, ch_dst := - 1, vol_start := 1, vol_end := 0,
      shape := CHR ''T'', time_pre := - 1, time_start := 0, time_end := 100, time_post := - 1 \<rparr>) 25
     = Some (3 / 4)
   \<and> get_fade_gain (mix_zero \<lparr> command := MIX_FADE, ch_dst := - 1, vol_start := 1, vol_end := 0,
      shape := CHR ''T'', time_pre := 10, time_start := 20, time_end := 30, time_post := 40 \<rparr>) 15
     = Some 1
   \<and> get_fade_gain (mix_zero \<lparr> command := MIX_FADE, ch_dst := - 1, vol_start := 1, vol_end := 0,
      shape := CHR ''T'', time_pre := 10, time_start := 20, time_end := 30, time_post := 40 \<rparr>) 35
     = Some 0
   \<and> get_fade_gain (mix_zero \<lparr> command := MIX_FADE, ch_dst := - 1, vol_start := 1, vol_end := 0,
      shape := CHR ''T'', time_pre := 10, time_start := 20, time_end := 30, time_post := 40 \<rparr>) 5
     = None
   \<and> get_fade_gain (mix_zero \<lparr> command := MIX_FADE, ch_dst := - 1, vol_start := 1, vol_end := 0,
      shape := CHR ''T'', time_pre := 10, time_start := 20, time_end := 30, time_post := 40 \<rparr>) 40
     = None"
  using
    get_fade_gain_regions [of "mix_zero \<lparr> command := MIX_FADE, ch_dst := - 1, vol_start := 1,
      vol_end := 0, shape := CHR ''T'', time_pre := - 1, time_start := 0, time_end := 100,
      time_post := - 1 \<rparr>" 25 0]
    get_fade_gain_regions [of "mix_zero \<lparr> command := MIX_FADE, ch_dst := - 1, vol_start := 1,
      vol_end := 0, shape := CHR ''T'', time_pre := 10, time_start := 20, time_end := 30,
      time_post := 40 \<rparr>" 15 0]
    get_fade_gain_regions [of "mix_zero \<lparr> command := MIX_FADE, ch_dst := - 1, vol_start := 1,
      vol_end := 0, shape := CHR ''T'', time_pre := 10, time_start := 20, time_end := 30,
      time_post := 40 \<rparr>" 35 0]
    get_fade_gain_regions [of "mix_zero \<lparr> command := MIX_FADE, ch_dst := - 1, vol_start := 1,
      vol_end := 0, shape := CHR ''T'', time_pre := 10, time_start := 20, time_end := 30,
      time_post := 40 \<rparr>" 5 0]
    get_fade_gain_regions [of "mix_zero \<lparr> command := MIX_FADE, ch_dst := - 1, vol_start := 1,
      vol_end := 0, shape := CHR ''T'', time_pre := 10, time_start := 20, time_end := 30,
      time_post := 40 \<rparr>" 40 0]
  by (simp add: mix_zero_def fade_shape_gain_def)

subsection \<open>Execution engine\<close>

text \<open>
  C4. If the chain is empty (\<open>mixing_count = 0\<close>) or mixing has not been activated
  (\<open>mixing_on\<close> false), \<open>mix_vgmstream\<close> returns with the output buffer and the state as they
  were; in particular the first \<open>channels \<times> sample_count\<close> samples are unchanged.
\<close>

theorem mix_vgmstream_not_applied:
  "mixing_data vgmstream = Some data \<Longrightarrow> mixing_count data = 0 \<or> \<not> mixing_on data \<Longrightarrow>
     mix_vgmstream outbuf sample_count vgmstream = (outbuf, vgmstream)
     \<and> (\<forall>i. 0 \<le> i \<and> i < channels vgmstream * sample_count \<longrightarrow>
           fst (mix_vgmstream outbuf sample_count vgmstream) i = outbuf i)"
  by (auto simp: mix_vgmstream_def)

theorem mix_vgmstream_not_applied_witness:
  "mix_vgmstream (\<lambda>i. if i = 0 then 100 else 200) 16 (mixing_init (example_stream 2) True)
     = (\<lambda>i. if i = 0 then 100 else 200, mixing_init (example_stream 2) True)"
proof -
  have a: "mixing_data (mixing_init (example_stream 2) True) = Some
             \<lparr> mixing_channels = 2, output_channels = 2, mixing_on = False, mixing_size = 128,
               mixing_chain = [], mixbuf = (\<lambda>_. 0) \<rparr>"
    by (simp add: mixing_init_def example_stream_def VGMSTREAM_MAX_MIXING_def)
  have b: "mixing_count \<lparr> mixing_channels = 2, output_channels = 2, mixing_on = False,
               mixing_size = 128, mixing_chain = [], mixbuf = (\<lambda>_. 0) \<rparr> = 0
           \<or> \<not> mixing_on \<lparr> mixing_channels = 2, output_channels = 2, mixing_on = False,
               mixing_size = 128, mixing_chain = [], mixbuf = (\<lambda>_. 0) \<rparr>"
    by (simp add: mixing_count_def)
  show ?thesis
    using mix_vgmstream_not_applied [OF a b] by simp
qed

text \<open>
  C7. Within one sample row a swap is its own inverse: the \<^verbatim>\<open>MIX_SWAP\<close> step applied twice in
  succession gives back the row (and the channel count) it started from, for every pair of
  channels.
\<close>

theorem mix_swap_self_inverse:
  "command mix = MIX_SWAP \<Longrightarrow>
     mix_command pos stp mix (mix_command pos stp mix (buf, step_channels)) = (buf, step_channels)"
  by (auto simp: mix_command_def Let_def fun_eq_iff)

theorem mix_swap_self_inverse_witness:
  "fst (mix_command 0 0 (mix_zero \<lparr> command := MIX_SWAP, ch_dst := 0, ch_src := 1 \<rparr>)
          (\<lambda>i. if i = 0 then 100 else 200, 2)) 0 = 200
   \<and> mix_command 0 0 (mix_zero \<lparr> command := MIX_SWAP, ch_dst := 0, ch_src := 1 \<rparr>)
       (mix_command 0 0 (mix_zero \<lparr> command := MIX_SWAP, ch_dst := 0, ch_src := 1 \<rparr>)
          (\<lambda>i. if i = 0 then 100 else 200, 2))
     = (\<lambda>i. if i = 0 then 100 else 200, 2)"
proof -
  have a: "command (mix_zero \<lparr> command := MIX_SWAP, ch_dst := 0, ch_src := 1 \<rparr>) = MIX_SWAP"
    by simp
  have b: "fst (mix_command 0 0 (mix_zero \<lparr> command := MIX_SWAP, ch_dst := 0, ch_src := 1 \<rparr>)
          (\<lambda>i. if i = 0 then 100 else 200, 2)) 0 = 200"
    by (simp add: mix_command_def mix_zero_def)
  show ?thesis
    using b mix_swap_self_inverse [OF a, of 0 0 "\<lambda>i. if i = 0 then 100 else 200" 2] by simp
qed

subsection \<open>Chain builder\<close>

text \<open>
  C10. The fade constructor returns the state as it was, so appends nothing, for every call
  whose \<open>time_start\<close> or \<open>time_end\<close> is negative, whatever the other arguments are. The open value
  \<open>- 1\<close> is accepted for \<open>time_pre\<close> and \<open>time_post\<close>: on a state that takes appends, a call with
  both open and \<open>0 \<le> time_start \<le> time_end\<close> appends one command, stored with an open
  \<open>time_post\<close>.
\<close>

theorem mixing_push_fade_negative_time:
  "(time_start_arg < 0 \<or> time_end_arg < 0 \<longrightarrow>
      mixing_push_fade vgmstream ch vs ve sh time_pre_arg time_start_arg time_end_arg time_post_arg
        = vgmstream)
   \<and> (mixing_data vgmstream = Some data \<and> \<not> mixing_on data \<and> mixing_count data < mixing_size data \<and>
        ch < output_channels data \<and> 0 \<le> time_start_arg \<and> time_start_arg \<le> time_end_arg \<longrightarrow>
        (\<exists>data1. mixing_data (mixing_push_fade vgmstream ch vs ve sh (- 1) time_start_arg time_end_arg (- 1))
                   = Some data1 \<and>
                 mixing_count data1 = mixing_count data + 1 \<and>
                 time_post (last (mixing_chain data1)) = - 1))"
proof (intro conjI impI)
  assume "time_start_arg < 0 \<or> time_end_arg < 0"
  then show "mixing_push_fade vgmstream ch vs ve sh time_pre_arg time_start_arg time_end_arg
               time_post_arg = vgmstream"
    by (auto simp: mixing_push_fade_def Let_def split: option.splits)
next
  assume "mixing_data vgmstream = Some data \<and> \<not> mixing_on data \<and>
          mixing_count data < mixing_size data \<and> ch < output_channels data \<and>
          0 \<le> time_start_arg \<and> time_start_arg \<le> time_end_arg"
  then show "\<exists>data1. mixing_data (mixing_push_fade vgmstream ch vs ve sh (- 1) time_start_arg
                         time_end_arg (- 1)) = Some data1 \<and>
               mixing_count data1 = mixing_count data + 1 \<and>
               time_post (last (mixing_chain data1)) = - 1"
    by (auto simp: mixing_push_fade_def Let_def add_mixing_def mixing_count_def fade_stitch_def
          mix_zero_def split: option.splits prod.splits if_splits)
qed

theorem mixing_push_fade_negative_time_witness:
  "mixing_push_fade (mixing_init (example_stream 2) True) (- 1) 1 0 (CHR ''T'') (- 1) (- 1) 100 (- 1)
     = mixing_init (example_stream 2) True
   \<and> mixing_push_fade (mixing_init (example_stream 2) True) (- 1) 1 0 (CHR ''T'') (- 1) (- 7) (- 1) (- 1)
     = mixing_init (example_stream 2) True
   \<and> (\<exists>data1. mixing_data (mixing_push_fade (mixing_init (example_stream 2) True)
                   (- 1) 1 0 (CHR ''T'') (- 1) 0 100 (- 1)) = Some data1 \<and>
        mixing_count data1 = 1 \<and> time_post (last (mixing_chain data1)) = - 1)"
  using
    mixing_push_fade_negative_time [of "- 1" 100 "mixing_init (example_stream 2) True" "- 1" 1 0
      "CHR ''T''" "- 1" "- 1"]
    mixing_push_fade_negative_time [of "- 7" "- 1" "mixing_init (example_stream 2) True" "- 1" 1 0
      "CHR ''T''" "- 1" "- 1"]
    mixing_push_fade_negative_time [where time_start_arg = 0 and time_end_arg = 100
      and vgmstream = "mixing_init (example_stream 2) True"
      and data = "\<lparr> mixing_channels = 2, output_channels = 2, mixing_on = False,
         mixing_size = 128, mixing_chain = [], mixbuf = (\<lambda>_. 0) \<rparr>"
      and ch = "- 1" and vs = 1 and ve = 0 and sh = "CHR ''T''"]
  by (simp add: mixing_init_def example_stream_def VGMSTREAM_MAX_MIXING_def mixing_count_def)

text \<open>
  C6. The killmix constructor returns the state as it was unless \<open>0 < k < output_channels\<close>; with
  such a \<open>k\<close>, on a state that takes appends (not activated, chain not full), it appends the
  command and sets \<open>output_channels\<close> to \<open>k\<close>, whatever the chain holds already; and whenever
  the call changes the state at all, \<open>output_channels\<close> is \<open>k\<close> afterwards.
\<close>

theorem mixing_push_killmix_accepts:
  "mixing_data vgmstream = Some data \<Longrightarrow>
     (\<not> (0 < k \<and> k < output_channels data) \<longrightarrow> mixing_push_killmix vgmstream k = vgmstream)
   \<and> (0 < k \<and> k < output_channels data \<and> \<not> mixing_on data \<and> mixing_count data < mixing_size data \<longrightarrow>
        mixing_data (mixing_push_killmix vgmstream k) = Some
          (data \<lparr> output_channels := k,
                  mixing_chain := mixing_chain data @ [mix_zero \<lparr> command := MIX_KILLMIX, ch_dst := k \<rparr>] \<rparr>))
   \<and> (mixing_push_killmix vgmstream k \<noteq> vgmstream \<longrightarrow>
        (\<exists>data1. mixing_data (mixing_push_killmix vgmstream k) = Some data1 \<and> output_channels data1 = k))"
  by (auto simp: mixing_push_killmix_def add_mixing_def mixing_count_def split: if_splits)

theorem mixing_push_killmix_accepts_witness:
  "mixing_push_killmix (mixing_init (example_stream 4) True) 0 = mixing_init (example_stream 4) True
   \<and> mixing_push_killmix (mixing_init (example_stream 4) True) 4 = mixing_init (example_stream 4) True
   \<and> mixing_data (mixing_push_killmix (mixing_init (example_stream 4) True) 2) = Some
        \<lparr> mixing_channels = 4, output_channels = 2, mixing_on = False, mixing_size = 128,
          mixing_chain = [mix_zero \<lparr> command := MIX_KILLMIX, ch_dst := 2 \<rparr>], mixbuf = (\<lambda>_. 0) \<rparr>"
proof -
  have a: "mixing_data (mixing_init (example_stream 4) True) = Some
             \<lparr> mixing_channels = 4, output_channels = 4, mixing_on = False, mixing_size = 128,
               mixing_chain = [], mixbuf = (\<lambda>_. 0) \<rparr>"
    by (simp add: mixing_init_def example_stream_def VGMSTREAM_MAX_MIXING_def)
  show ?thesis
    using mixing_push_killmix_accepts [OF a, of 0] mixing_push_killmix_accepts [OF a, of 4]
      mixing_push_killmix_accepts [OF a, of 2]
    by (simp add: mixing_count_def)
qed

text \<open>
  C2 (the code differs). On a fresh 2-channel state, which holds no fade at all, the call
  \<open>mixing_push_fade (- 1) 1.0 0.0 'T' (- 1) 0 100 (- 1)\<close> stores a command whose \<open>time_pre\<close>
  is still \<open>- 1\<close>, not \<open>time_start = 0\<close>; and the call with \<open>vol_end = 1.0\<close> stores a command whose
  \<open>time_post\<close> is still \<open>- 1\<close>, not \<open>time_end = 100\<close>. The source assigns the defaults to its
  parameters after these were copied into the command.
\<close>

theorem mixing_push_fade_default_not_stored:
  "map_option (map time_pre \<circ> mixing_chain)
     (mixing_data (mixing_push_fade (mixing_init (example_stream 2) True)
        (- 1) 1 0 (CHR ''T'') (- 1) 0 100 (- 1))) = Some [- 1]
   \<and> map_option (map time_post \<circ> mixing_chain)
     (mixing_data (mixing_push_fade (mixing_init (example_stream 2) True)
        (- 1) 0 1 (CHR ''T'') (- 1) 0 100 (- 1))) = Some [- 1]"
  by (simp add: mixing_push_fade_def mixing_init_def example_stream_def get_last_fade_def
        add_mixing_def mixing_count_def VGMSTREAM_MAX_MIXING_def mix_zero_def Let_def)

text \<open>The state after one open-ended fade-out was appended to a fresh 2-channel state.\<close>

lemma example_fade_out_state:
  "mixing_push_fade (mixing_init (example_stream 2) True) (- 1) 1 0 (CHR ''T'') (- 1) 0 100 (- 1)
   = (example_stream 2) \<lparr> mixing_data := Some
        \<lparr> mixing_channels = 2, output_channels = 2, mixing_on = False, mixing_size = 128,
          mixing_chain = [mix_zero \<lparr> command := MIX_FADE, ch_dst := - 1, vol_start := 1,
            vol_end := 0, shape := CHR ''T'', time_pre := - 1, time_start := 0, time_end := 100,
            time_post := - 1 \<rparr>],
          mixbuf = (\<lambda>_. 0) \<rparr> \<rparr>"
  by (simp add: mixing_push_fade_def mixing_init_def example_stream_def get_last_fade_def
        add_mixing_def mixing_count_def VGMSTREAM_MAX_MIXING_def Let_def)

text \<open>
  C3 (the code differs). A fade-out with an open \<open>time_post\<close> is appended to a fresh 2-channel
  state and mixing is activated. A further fade on the same selector is then rejected
  (nothing is appended), yet the stored \<open>time_post\<close> of the first fade has changed from \<open>- 1\<close> to
  \<open>100\<close>: the previous command is patched before \<open>add_mixing\<close> refuses the new one.
\<close>

theorem mixing_push_fade_rejected_changes_previous:
  "(let v1 = mixing_push_fade (mixing_init (example_stream 2) True)
               (- 1) 1 0 (CHR ''T'') (- 1) 0 100 (- 1);
        v2 = mixing_setup v1 1024 True;
        v3 = mixing_push_fade v2 (- 1) 0 1 (CHR ''T'') (- 1) 200 300 (- 1)
    in map_option mixing_on (mixing_data v2) = Some True
     \<and> map_option (map time_post \<circ> mixing_chain) (mixing_data v2) = Some [- 1]
     \<and> map_option (map time_post \<circ> mixing_chain) (mixing_data v3) = Some [100]
     \<and> v3 \<noteq> v2)"
proof -
  have "map_option (map time_post \<circ> mixing_chain)
          (mixing_data (mixing_setup (mixing_push_fade (mixing_init (example_stream 2) True)
             (- 1) 1 0 (CHR ''T'') (- 1) 0 100 (- 1)) 1024 True)) = Some [- 1]"
    unfolding example_fade_out_state
    by (simp add: mixing_setup_def example_stream_def mix_zero_def)
  moreover
  have "map_option (map time_post \<circ> mixing_chain)
          (mixing_data (mixing_push_fade (mixing_setup (mixing_push_fade
             (mixing_init (example_stream 2) True) (- 1) 1 0 (CHR ''T'') (- 1) 0 100 (- 1)) 1024 True)
             (- 1) 0 1 (CHR ''T'') (- 1) 200 300 (- 1))) = Some [100]"
    unfolding example_fade_out_state
    by (simp add: mixing_setup_def example_stream_def mix_zero_def mixing_push_fade_def
          get_last_fade_def add_mixing_def fade_stitch_def Let_def)
  moreover
  have "map_option mixing_on
          (mixing_data (mixing_setup (mixing_push_fade (mixing_init (example_stream 2) True)
             (- 1) 1 0 (CHR ''T'') (- 1) 0 100 (- 1)) 1024 True)) = Some True"
    unfolding example_fade_out_state
    by (simp add: mixing_setup_def example_stream_def mix_zero_def)
  ultimately show ?thesis
    unfolding Let_def by auto
qed

subsection \<open>Channel counters\<close>

lemma fold_preserves:
  assumes "\<And>x s. P s \<Longrightarrow> P (f x s)" and "P s"
  shows "P (fold f xs s)"
  using assms(2) by (induction xs arbitrary: s) (auto intro: assms(1))

lemma channels_inv_add_mixing:
  "channels_inv v \<Longrightarrow> channels_inv (snd (add_mixing v m))"
  by (auto simp: channels_inv_def add_mixing_def split: option.splits)

lemma channels_inv_push_swap:
  "channels_inv v \<Longrightarrow> channels_inv (mixing_push_swap v a b)"
  by (auto simp: mixing_push_swap_def channels_inv_add_mixing split: option.splits)

lemma channels_inv_push_add:
  "channels_inv v \<Longrightarrow> channels_inv (mixing_push_add v a b vl)"
  by (auto simp: mixing_push_add_def channels_inv_add_mixing split: option.splits)

lemma channels_inv_push_volume:
  "channels_inv v \<Longrightarrow> channels_inv (mixing_push_volume v a vl)"
  by (auto simp: mixing_push_volume_def channels_inv_add_mixing split: option.splits)

lemma channels_inv_push_limit:
  "channels_inv v \<Longrightarrow> channels_inv (mixing_push_limit v a vl)"
  by (auto simp: mixing_push_limit_def channels_inv_add_mixing split: option.splits)

lemma channels_inv_push_upmix:
  "channels_inv v \<Longrightarrow> channels_inv (mixing_push_upmix m v a)"
  by (auto simp: mixing_push_upmix_def channels_inv_def add_mixing_def Let_def
        split: option.splits if_splits)

lemma channels_inv_push_downmix:
  "channels_inv v \<Longrightarrow> channels_inv (mixing_push_downmix v a)"
  by (auto simp: mixing_push_downmix_def channels_inv_def add_mixing_def
        split: option.splits if_splits)

lemma channels_inv_push_killmix:
  "channels_inv v \<Longrightarrow> channels_inv (mixing_push_killmix v a)"
  by (auto simp: mixing_push_killmix_def channels_inv_def add_mixing_def
        split: option.splits if_splits)

lemma channels_inv_chain_update:
  "mixing_data v = Some data \<Longrightarrow> channels_inv v \<Longrightarrow>
     channels_inv (v \<lparr> mixing_data := Some (data \<lparr> mixing_chain := c \<rparr>) \<rparr>)"
  by (simp add: channels_inv_def)

lemma channels_inv_push_fade:
  "channels_inv v \<Longrightarrow> channels_inv (mixing_push_fade v a vs ve sh t1 t2 t3 t4)"
  by (simp add: mixing_push_fade_def Let_def channels_inv_add_mixing channels_inv_chain_update
        if_distrib [of channels_inv] split: option.split prod.split split del: if_split cong: if_cong)

lemma channels_inv_macro_volume:
  assumes "channels_inv v"
  shows "channels_inv (mixing_macro_volume v vl m)"
proof (cases "mixing_data v")
  case None
  with assms show ?thesis by (simp add: mixing_macro_volume_def)
next
  case (Some data)
  have "channels_inv (fold (\<lambda>ch v. if mask_bit m ch = 0 then v else mixing_push_volume v ch vl) xs v)"
    for xs
    by (rule fold_preserves) (simp_all add: assms channels_inv_push_volume)
  then show ?thesis
    using assms Some by (simp add: mixing_macro_volume_def channels_inv_push_volume)
qed

lemma channels_inv_macro_track:
  assumes "channels_inv v"
  shows "channels_inv (mixing_macro_track v m)"
proof (cases "mixing_data v")
  case None
  with assms show ?thesis by (simp add: mixing_macro_track_def)
next
  case (Some data)
  have "channels_inv (fold (\<lambda>ch v. if mask_bit m ch \<noteq> 0 then v else mixing_push_downmix v ch) xs v)"
    for xs
    by (rule fold_preserves) (simp_all add: assms channels_inv_push_downmix)
  then show ?thesis
    using assms Some by (simp add: mixing_macro_track_def)
qed

lemma channels_inv_layer_add_loop:
  "layer_add_loop mode mx m sel chs st = Some st1 \<Longrightarrow> channels_inv (fst st) \<Longrightarrow>
     channels_inv (fst st1)"
proof (induction chs arbitrary: st)
  case Nil
  then show ?case by simp
next
  case (Cons ch chs)
  obtain v cur where st: "st = (v, cur)" by (cases st)
  show ?case
  proof (cases "mask_bit m ch = 0")
    case True
    with Cons show ?thesis by (simp add: st)
  next
    case False
    with Cons.prems obtain vl where
      "layer_add_loop mode mx m sel chs
         (mixing_push_add v cur (mx + ch) vl, if cur + 1 \<ge> mx then 0 else cur + 1) = Some st1"
      by (auto simp: st Let_def split: option.splits)
    moreover have "channels_inv (mixing_push_add v cur (mx + ch) vl)"
      using Cons.prems(2) by (simp add: st channels_inv_push_add)
    ultimately show ?thesis
      using Cons.IH by fastforce
  qed
qed

lemma channels_inv_macro_layer:
  assumes "mixing_macro_layer mc v mx m mode = Some v1" and "channels_inv v"
  shows "channels_inv v1"
proof (cases "mixing_data v")
  case None
  with assms show ?thesis by (simp add: mixing_macro_layer_def)
next
  case (Some data)
  show ?thesis
  proof (cases "mx \<le> 0 \<or> output_channels data \<le> mx")
    case True
    with assms Some show ?thesis by (auto simp: mixing_macro_layer_def)
  next
    case False
    define m1 where "m1 = (if m = 0 then NOT m else m)"
    define sel where "sel = fold (\<lambda>ch n. n + mask_bit m1 ch) [0..output_channels data - 1] 0"
    define va where "va = fold (\<lambda>ch v. mixing_push_upmix mc v 0) [0..mx - 1] v"
    have va: "channels_inv va"
      unfolding va_def by (rule fold_preserves) (simp_all add: channels_inv_push_upmix assms(2))
    from assms(1) Some False obtain v2 cur where
      loop: "layer_add_loop mode mx m1 sel [0..output_channels data - 1] (va, 0) = Some (v2, cur)"
      and v1: "v1 = mixing_push_killmix v2 mx"
      by (auto simp: mixing_macro_layer_def Let_def m1_def sel_def va_def split: option.splits)
    from channels_inv_layer_add_loop [OF loop] va have "channels_inv v2" by simp
    then show ?thesis by (simp add: v1 channels_inv_push_killmix)
  qed
qed

lemma layer_volume_returns:
  "mode \<noteq> CHR ''b'' \<Longrightarrow> layer_volume mode ch mx cur sel \<noteq> None"
  by (simp add: layer_volume_def Let_def)

lemma layer_add_loop_returns:
  "mode \<noteq> CHR ''b'' \<Longrightarrow> layer_add_loop mode mx m sel chs st \<noteq> None"
proof (induction chs arbitrary: st)
  case Nil
  then show ?case by simp
next
  case (Cons ch chs)
  then show ?case
    using layer_volume_returns [of mode ch mx "snd st" sel]
    by (cases st) (auto simp: Let_def split: option.splits)
qed

lemma macro_layer_returns:
  assumes "mode \<noteq> CHR ''b''"
  shows "mixing_macro_layer mc v mx m mode \<noteq> None"
proof (cases "mixing_data v")
  case None
  then show ?thesis by (simp add: mixing_macro_layer_def)
next
  case (Some data)
  have "layer_add_loop mode mx m1 sel chs st \<noteq> None" for m1 sel chs st
    by (rule layer_add_loop_returns [OF assms])
  then have "\<exists>r. layer_add_loop mode mx m1 sel chs st = Some r" for m1 sel chs st
    by blast
  then obtain r where
    "layer_add_loop mode mx (if m = 0 then NOT m else m)
       (fold (\<lambda>ch n. n + mask_bit (if m = 0 then NOT m else m) ch) [0..output_channels data - 1] 0)
       [0..output_channels data - 1]
       (fold (\<lambda>ch v. mixing_push_upmix mc v 0) [0..mx - 1] v, 0) = Some r"
    by blast
  then show ?thesis
    using Some by (cases r) (simp add: mixing_macro_layer_def Let_def)
qed

lemma channels_inv_cross_add:
  "channels_inv (fst st) \<Longrightarrow> channels_inv (fst (cross_add mx ch st))"
  by (cases st) (simp add: cross_add_def Let_def channels_inv_push_add)

lemma channels_inv_crosstrack_track:
  assumes "channels_inv (fst st)"
  shows "channels_inv (fst (crosstrack_track mx tn t st))"
proof -
  obtain v ch where st: "st = (v, ch)" by (cases st)
  have "channels_inv (fold (\<lambda>track_ch v.
          let v1 = (if t > 0 then mixing_push_fade v (ch + track_ch) 0 vl (CHR ''('')
                      (- 1) cp (cp + ct) (- 1) else v)
          in if t + 1 < tn then mixing_push_fade v1 (ch + track_ch) vl 0 (CHR '')'')
                      (- 1) cn (cn + ct) (- 1) else v1) xs v)" for xs vl cp cn ct
    by (rule fold_preserves) (use assms in \<open>simp_all add: st Let_def channels_inv_push_fade\<close>)
  then show ?thesis
    by (simp add: st crosstrack_track_def Let_def)
qed

lemma channels_inv_config_loop_count:
  "channels_inv (v \<lparr> config_loop_count := n \<rparr>) = channels_inv v"
  by (simp add: channels_inv_def)

lemma channels_inv_fold_cross_add:
  "channels_inv w \<Longrightarrow> channels_inv (fst (fold (cross_add mx) xs (w, c)))"
  by (rule fold_preserves [where P = "\<lambda>st. channels_inv (fst st)"])
     (simp_all add: channels_inv_cross_add)

lemma channels_inv_fold_crosstrack_track:
  "channels_inv w \<Longrightarrow> channels_inv (fst (fold (crosstrack_track mx tn) xs (w, c)))"
  by (rule fold_preserves [where P = "\<lambda>st. channels_inv (fst st)"])
     (simp_all add: channels_inv_crosstrack_track)

lemma channels_inv_macro_crosstrack:
  "channels_inv v \<Longrightarrow> channels_inv (mixing_macro_crosstrack mc v mx)"
  by (simp add: mixing_macro_crosstrack_def Let_def split_beta channels_inv_push_killmix
        channels_inv_push_upmix channels_inv_config_loop_count channels_inv_fold_cross_add
        channels_inv_fold_crosstrack_track split: option.splits)

lemma channels_inv_crosslayer_layer:
  assumes "channels_inv (fst st)"
  shows "channels_inv (fst (crosslayer_layer mx mode lp cp ct layer st))"
proof -
  obtain v ch v1 v2 where st: "st = (v, ch, v1, v2)" by (cases st)
  have "channels_inv (fold (\<lambda>layer_ch v. mixing_push_fade v (ch + layer_ch) va vb ty
          (- 1) cp (cp + ct) (- 1)) xs v)" for xs va vb ty
    by (rule fold_preserves) (use assms in \<open>simp_all add: st channels_inv_push_fade\<close>)
  then show ?thesis
    using assms by (simp add: st crosslayer_layer_def Let_def split_beta)
qed

lemma channels_inv_crosslayer_loop:
  "channels_inv v \<Longrightarrow> channels_inv (crosslayer_loop mx mode lnum lp v)"
  unfolding crosslayer_loop_def Let_def split_beta
  by (rule fold_preserves [where P = "\<lambda>st. channels_inv (fst st)"])
     (simp_all add: channels_inv_crosslayer_layer)

lemma channels_inv_fold_crosslayer_loop:
  "channels_inv w \<Longrightarrow> channels_inv (fold (crosslayer_loop mx mode lnum) xs w)"
  by (rule fold_preserves) (simp_all add: channels_inv_crosslayer_loop)

lemma channels_inv_macro_crosslayer:
  "channels_inv v \<Longrightarrow> channels_inv (mixing_macro_crosslayer mc v mx mode)"
  by (simp add: mixing_macro_crosslayer_def Let_def split_beta channels_inv_push_killmix
        channels_inv_push_upmix channels_inv_config_loop_count channels_inv_fold_cross_add
        channels_inv_fold_crosslayer_loop split: option.splits)

text \<open>
  C9. After initialisation of a stream with at least one channel both counters equal the
  stream's channel count, and \<open>1 \<le> output_channels \<le> mixing_channels\<close> holds; the invariant
  is kept by \<open>mixing_update_channel\<close>, by each of the eight constructors and by each of the five
  macros, whether the call is accepted or not. (\<open>mixing_macro_layer\<close> in mode 'b' can stop at a
  remainder by zero, in which case there is no state after it; in every other mode it
  returns.) An accepted upmix leaves \<open>mixing_channels\<close> at least the new \<open>output_channels\<close>; a
  downmix that would leave less than one channel returns the state as it was; a killmix leaves
  \<open>output_channels\<close> as it was or sets it to a strictly positive value below the previous one.
\<close>

theorem channel_counts_invariant:
  "(1 \<le> channels s \<longrightarrow>
      channels_inv (mixing_init s True) \<and>
      map_option output_channels (mixing_data (mixing_init s True)) = Some (channels s) \<and>
      map_option mixing_channels (mixing_data (mixing_init s True)) = Some (channels s))
   \<and> (channels_inv v \<longrightarrow>
        channels_inv (mixing_update_channel v) \<and>
        channels_inv (mixing_push_swap v a b) \<and>
        channels_inv (mixing_push_add v a b vl) \<and>
        channels_inv (mixing_push_volume v a vl) \<and>
        channels_inv (mixing_push_limit v a vl) \<and>
        channels_inv (mixing_push_upmix mc v a) \<and>
        channels_inv (mixing_push_downmix v a) \<and>
        channels_inv (mixing_push_killmix v a) \<and>
        channels_inv (mixing_push_fade v a vs ve sh t1 t2 t3 t4) \<and>
        channels_inv (mixing_macro_volume v vl m) \<and>
        channels_inv (mixing_macro_track v m) \<and>
        (\<forall>v1. mixing_macro_layer mc v mx m mode = Some v1 \<longrightarrow> channels_inv v1) \<and>
        (mode \<noteq> CHR ''b'' \<longrightarrow> mixing_macro_layer mc v mx m mode \<noteq> None) \<and>
        channels_inv (mixing_macro_crosstrack mc v mx) \<and>
        channels_inv (mixing_macro_crosslayer mc v mx mode))
   \<and> (mixing_data v = Some data \<and> mixing_data (mixing_push_upmix mc v a) = Some data1 \<and>
        mixing_push_upmix mc v a \<noteq> v \<longrightarrow>
        output_channels data1 = output_channels data + 1 \<and>
        output_channels data1 \<le> mixing_channels data1)
   \<and> (mixing_data v = Some data \<and> output_channels data - 1 < 1 \<longrightarrow> mixing_push_downmix v a = v)
   \<and> (mixing_data v = Some data \<and> mixing_data (mixing_push_killmix v a) = Some data1 \<longrightarrow>
        output_channels data1 = output_channels data \<or>
        (0 < output_channels data1 \<and> output_channels data1 < output_channels data))"
proof (intro conjI impI allI)
  assume "1 \<le> channels s"
  then show "channels_inv (mixing_init s True)"
    by (simp add: mixing_init_def channels_inv_def)
  show "map_option output_channels (mixing_data (mixing_init s True)) = Some (channels s)"
    by (simp add: mixing_init_def)
  show "map_option mixing_channels (mixing_data (mixing_init s True)) = Some (channels s)"
    by (simp add: mixing_init_def)
next
  assume "channels_inv v"
  then show "channels_inv (mixing_update_channel v)"
    by (auto simp: mixing_update_channel_def channels_inv_def split: option.splits)
next
  fix v1
  assume "channels_inv v" and "mixing_macro_layer mc v mx m mode = Some v1"
  then show "channels_inv v1"
    by (simp add: channels_inv_macro_layer)
next
  assume "mixing_data v = Some data \<and> mixing_data (mixing_push_upmix mc v a) = Some data1 \<and>
          mixing_push_upmix mc v a \<noteq> v"
  then have *: "output_channels data1 = output_channels data + 1 \<and>
          output_channels data1 \<le> mixing_channels data1"
    by (auto simp: mixing_push_upmix_def add_mixing_def Let_def split: if_splits)
  from * show "output_channels data1 = output_channels data + 1" by simp
  from * show "output_channels data1 \<le> mixing_channels data1" by simp
next
  assume "mixing_data v = Some data \<and> output_channels data - 1 < 1"
  then show "mixing_push_downmix v a = v"
    by (simp add: mixing_push_downmix_def)
next
  assume "mixing_data v = Some data \<and> mixing_data (mixing_push_killmix v a) = Some data1"
  then show "output_channels data1 = output_channels data \<or>
             (0 < output_channels data1 \<and> output_channels data1 < output_channels data)"
    by (auto simp: mixing_push_killmix_def add_mixing_def split: if_splits)
qed (simp_all add: channels_inv_push_swap channels_inv_push_add channels_inv_push_volume
       channels_inv_push_limit channels_inv_push_upmix channels_inv_push_downmix
       channels_inv_push_killmix channels_inv_push_fade channels_inv_macro_volume
       channels_inv_macro_track macro_layer_returns channels_inv_macro_crosstrack
       channels_inv_macro_crosslayer)

theorem channel_counts_invariant_witness:
  "channels_inv (mixing_init (example_stream 4) True)
   \<and> channels_inv (mixing_push_upmix 64 (mixing_init (example_stream 4) True) 0)
   \<and> channels_inv (mixing_push_downmix (mixing_init (example_stream 4) True) 3)
   \<and> channels_inv (mixing_push_killmix (mixing_init (example_stream 4) True) 2)
   \<and> channels_inv (mixing_macro_track (mixing_init (example_stream 4) True) 3)
   \<and> mixing_macro_layer 64 (mixing_init (example_stream 4) True) 2 15 (CHR ''v'') \<noteq> None
   \<and> channels_inv (mixing_macro_crosstrack 64 (mixing_init (example_stream 4) True) 2)"
proof -
  have i: "channels_inv (mixing_init (example_stream 4) True)"
    using channel_counts_invariant [where s = "example_stream 4"]
    by (simp add: example_stream_def)
  show ?thesis
    using i channel_counts_invariant [where v = "mixing_init (example_stream 4) True"
      and mc = 64 and mode = "CHR ''v''"]
    by simp
qed

subsection \<open>Layer downmix\<close>

text \<open>The chain that the layer macro builds on a fresh 4-channel state for two output
  channels, all four channels selected, mode 'v'.\<close>

lemma macro_layer_4ch_state:
  assumes "channels s = 4" and "6 \<le> mc"
  shows "mixing_macro_layer mc (mixing_init s True) 2 15 (CHR ''v'') = Some
           (s \<lparr> mixing_data := Some
              \<lparr> mixing_channels = 6, output_channels = 2, mixing_on = False, mixing_size = 128,
                mixing_chain =
                  [mix_zero \<lparr> command := MIX_UPMIX, ch_dst := 0 \<rparr>,
                   mix_zero \<lparr> command := MIX_UPMIX, ch_dst := 0 \<rparr>,
                   mix_zero \<lparr> command := MIX_ADD, ch_dst := 0, ch_src := 2, vol := 1 \<rparr>,
                   mix_zero \<lparr> command := MIX_ADD, ch_dst := 1, ch_src := 3, vol := 1 \<rparr>,
                   mix_zero \<lparr> command := MIX_ADD, ch_dst := 0, ch_src := 4, vol := 1 \<rparr>,
                   mix_zero \<lparr> command := MIX_ADD, ch_dst := 1, ch_src := 5, vol := 1 \<rparr>,
                   mix_zero \<lparr> command := MIX_KILLMIX, ch_dst := 2 \<rparr>],
                mixbuf = (\<lambda>_. 0) \<rparr> \<rparr>)"
  using assms
  by (simp add: mixing_macro_layer_def mixing_init_def VGMSTREAM_MAX_MIXING_def mask_bit_def
        mixing_push_upmix_def mixing_push_add_def mixing_push_killmix_def add_mixing_def
        mixing_count_def layer_volume_def Let_def upto_rec1)

lemma layer_chain_row:
  "fold (mix_command pos stp)
     [mix_zero \<lparr> command := MIX_UPMIX, ch_dst := 0 \<rparr>,
      mix_zero \<lparr> command := MIX_UPMIX, ch_dst := 0 \<rparr>,
      mix_zero \<lparr> command := MIX_ADD, ch_dst := 0, ch_src := 2, vol := 1 \<rparr>,
      mix_zero \<lparr> command := MIX_ADD, ch_dst := 1, ch_src := 3, vol := 1 \<rparr>,
      mix_zero \<lparr> command := MIX_ADD, ch_dst := 0, ch_src := 4, vol := 1 \<rparr>,
      mix_zero \<lparr> command := MIX_ADD, ch_dst := 1, ch_src := 5, vol := 1 \<rparr>,
      mix_zero \<lparr> command := MIX_KILLMIX, ch_dst := 2 \<rparr>] (buf, 4) = (r, n) \<Longrightarrow>
   n = 2 \<and> r stp = buf stp + buf (stp + 2) \<and> r (stp + 1) = buf (stp + 1) + buf (stp + 3)"
  by (auto simp: mix_command_def mix_zero_def Let_def upto_rec1 add.commute)

text \<open>
  C8. On a fresh state of a 4-channel stream (with a channel ceiling of at least 6, so that
  the two temporary channels fit) the layer macro with \<open>max = 2\<close>, \<open>mask = 0b1111\<close>, mode 'v'
  returns a state whose \<open>output_channels\<close> is 2, and its chain applied to any row of four lanes
  leaves two channels: lane 0 holds the sum of source lanes 0 and 2, lane 1 the sum of source
  lanes 1 and 3, both with volume 1.
\<close>

theorem macro_layer_downmix_4ch:
  assumes "channels s = 4" and "6 \<le> mc"
  shows "\<exists>v data. mixing_macro_layer mc (mixing_init s True) 2 15 (CHR ''v'') = Some v \<and>
           mixing_data v = Some data \<and> output_channels data = 2 \<and>
           (\<forall>pos stp buf. \<exists>r.
              fold (mix_command pos stp) (mixing_chain data) (buf, channels s) = (r, 2) \<and>
              r stp = buf stp + buf (stp + 2) \<and>
              r (stp + 1) = buf (stp + 1) + buf (stp + 3))"
proof -
  let ?chain = "[mix_zero \<lparr> command := MIX_UPMIX, ch_dst := 0 \<rparr>,
      mix_zero \<lparr> command := MIX_UPMIX, ch_dst := 0 \<rparr>,
      mix_zero \<lparr> command := MIX_ADD, ch_dst := 0, ch_src := 2, vol := 1 \<rparr>,
      mix_zero \<lparr> command := MIX_ADD, ch_dst := 1, ch_src := 3, vol := 1 \<rparr>,
      mix_zero \<lparr> command := MIX_ADD, ch_dst := 0, ch_src := 4, vol := 1 \<rparr>,
      mix_zero \<lparr> command := MIX_ADD, ch_dst := 1, ch_src := 5, vol := 1 \<rparr>,
      mix_zero \<lparr> command := MIX_KILLMIX, ch_dst := 2 \<rparr>]"
  have row: "\<exists>r. fold (mix_command pos stp) ?chain (buf, channels s) = (r, 2) \<and>
               r stp = buf stp + buf (stp + 2) \<and> r (stp + 1) = buf (stp + 1) + buf (stp + 3)"
    for pos stp buf
  proof -
    obtain r n where rn: "fold (mix_command pos stp) ?chain (buf, 4) = (r, n)"
      by (cases "fold (mix_command pos stp) ?chain (buf, 4)")
    from layer_chain_row [OF rn] rn show ?thesis
      by (simp add: assms(1))
  qed
  let ?data = "\<lparr> mixing_channels = 6, output_channels = 2, mixing_on = False, mixing_size = 128,
      mixing_chain = ?chain, mixbuf = (\<lambda>_. 0) \<rparr>"
  have "mixing_macro_layer mc (mixing_init s True) 2 15 (CHR ''v'') =
          Some (s \<lparr> mixing_data := Some ?data \<rparr>)"
    by (rule macro_layer_4ch_state [OF assms])
  moreover have "mixing_data (s \<lparr> mixing_data := Some ?data \<rparr>) = Some ?data"
    by simp
  moreover have "output_channels ?data = 2"
    by simp
  moreover have "\<forall>pos stp buf. \<exists>r.
      fold (mix_command pos stp) (mixing_chain ?data) (buf, channels s) = (r, 2) \<and>
      r stp = buf stp + buf (stp + 2) \<and> r (stp + 1) = buf (stp + 1) + buf (stp + 3)"
    using row by simp
  ultimately show ?thesis
    by blast
qed

theorem macro_layer_downmix_4ch_witness:
  "\<exists>v data. mixing_macro_layer 64 (mixing_init (example_stream 4) True) 2 15 (CHR ''v'') = Some v \<and>
     mixing_data v = Some data \<and> output_channels data = 2 \<and>
     (\<exists>r. fold (mix_command 0 0) (mixing_chain data) (\<lambda>i. real_of_int i * 100, 4) = (r, 2) \<and>
        r 0 = 200 \<and> r 1 = 400)"
proof -
  have a: "channels (example_stream 4) = 4" by (simp add: example_stream_def)
  have b: "(6 :: int) \<le> 64" by simp
  from macro_layer_downmix_4ch [OF a b] obtain v data where
    v: "mixing_macro_layer 64 (mixing_init (example_stream 4) True) 2 15 (CHR ''v'') = Some v"
      "mixing_data v = Some data" "output_channels data = 2"
    and row: "\<And>pos stp buf. \<exists>r.
              fold (mix_command pos stp) (mixing_chain data) (buf, channels (example_stream 4)) = (r, 2) \<and>
              r stp = buf stp + buf (stp + 2) \<and>
              r (stp + 1) = buf (stp + 1) + buf (stp + 3)"
    by blast
  from row [of 0 0 "\<lambda>i. real_of_int i * 100"] obtain r where
    "fold (mix_command 0 0) (mixing_chain data) (\<lambda>i. real_of_int i * 100, 4) = (r, 2)"
    "r 0 = 200" "r 1 = 400"
    by (auto simp: a)
  with v show ?thesis by blast
qed

subsection \<open>Activity check\<close>

lemma fold_store_apply:
  "fold (\<lambda>ch b. b (base + ch := h ch)) xs buf i =
     (if i - base \<in> set xs then h (i - base) else buf i)"
  for base i :: int
  by (induction xs arbitrary: buf) auto

lemma int32_id:
  "- 2147483648 \<le> x \<Longrightarrow> x \<le> 2147483647 \<Longrightarrow> int32 x = x"
  by (simp add: int32_def)

lemma int32_range:
  "- 2147483648 \<le> int32 x \<and> int32 x \<le> 2147483647"
proof -
  have "0 \<le> (x + 2147483648) mod 4294967296" and "(x + 2147483648) mod 4294967296 < 4294967296"
    by simp_all
  then show ?thesis
    unfolding int32_def by linarith
qed

lemma get_current_pos_range:
  "- 2147483648 \<le> get_current_pos v \<and> get_current_pos v \<le> 2147483647"
  by (simp add: get_current_pos_def Let_def int32_range)

lemma get_fade_gain_outside_window:
  "fade_ordered mix \<Longrightarrow> 0 \<le> p \<Longrightarrow> \<not> fade_window mix p \<Longrightarrow> get_fade_gain mix p = None"
  by (auto simp: fade_ordered_def fade_window_def get_fade_gain_def split: if_splits)

lemma fold_mix_command_idle:
  "\<forall>m \<in> set chain. command m = MIX_FADE \<and> get_fade_gain m p = None \<Longrightarrow>
     fold (mix_command p stp) chain st = st"
  by (induction chain arbitrary: st) (auto simp: mix_command_def)

lemma mix_sample_idle:
  assumes "\<forall>m \<in> set (mixing_chain data).
             command m = MIX_FADE \<and> get_fade_gain m (int32 (cp + s)) = None"
  shows "mix_sample v data outbuf cp s (buf, tm, to) =
           (\<lambda>i. if 0 \<le> i - tm \<and> i - tm \<le> channels v - 1
                 then real_of_int (sint (outbuf (to + (i - tm)))) else buf i,
            tm + channels v, to + channels v)"
  by (simp add: mix_sample_def Let_def fold_mix_command_idle [OF assms] fold_store_apply fun_eq_iff)

lemma sample_loop_idle:
  assumes "\<forall>s. 0 \<le> s \<and> s < int k \<longrightarrow>
             (\<forall>m \<in> set (mixing_chain data).
                 command m = MIX_FADE \<and> get_fade_gain m (int32 (cp + s)) = None)"
  shows "\<exists>b. fold (mix_sample v data outbuf cp) [0..int k - 1] (buf, 0, 0)
               = (b, int k * channels v, int k * channels v) \<and>
             (\<forall>i. 0 \<le> i \<and> i < int k * channels v \<longrightarrow> b i = real_of_int (sint (outbuf i)))"
  using assms
proof (induction k)
  case 0
  then show ?case by simp
next
  case (Suc k)
  then obtain b where
    b: "fold (mix_sample v data outbuf cp) [0..int k - 1] (buf, 0, 0)
          = (b, int k * channels v, int k * channels v)"
    and bi: "\<And>i. 0 \<le> i \<Longrightarrow> i < int k * channels v \<Longrightarrow> b i = real_of_int (sint (outbuf i))"
    by force
  have idle: "\<forall>m \<in> set (mixing_chain data).
                command m = MIX_FADE \<and> get_fade_gain m (int32 (cp + int k)) = None"
    using Suc.prems [rule_format, of "int k"] by simp
  have range: "[0..int (Suc k) - 1] = [0..int k - 1] @ [int k]"
    using upto_rec2 [of 0 "int k"] by simp
  show ?case
    unfolding range fold_append comp_apply b
    by (auto simp: mix_sample_idle [OF idle] bi algebra_simps)
qed

lemma float_to_int32_of_int:
  "float_to_int32 (real_of_int x) = x"
  by (simp add: float_to_int32_def)

lemma clamp16_sint:
  "clamp16 (sint w) = w"
  using sint_ge [of w] sint_lt [of w]
  by (simp add: clamp16_def)

lemma clamp16_roundtrip:
  "clamp16 (float_to_int32 (real_of_int (sint w))) = w"
  by (simp only: float_to_int32_of_int clamp16_sint)

lemma mix_pass_idle:
  assumes idle: "\<forall>s. 0 \<le> s \<and> s < sample_count \<longrightarrow>
             (\<forall>m \<in> set (mixing_chain data).
                 command m = MIX_FADE \<and> get_fade_gain m (int32 (cp + s)) = None)"
    and count: "0 \<le> sample_count"
    and out: "output_channels data = channels v"
  shows "fst (mix_pass outbuf sample_count v data cp) = outbuf"
proof -
  from count obtain k where k: "sample_count = int k"
    using nonneg_int_cases by blast
  from sample_loop_idle [of k data cp v outbuf "mixbuf data"] idle obtain b where
    b: "fold (mix_sample v data outbuf cp) [0..sample_count - 1] (mixbuf data, 0, 0)
          = (b, sample_count * channels v, sample_count * channels v)"
    and bi: "\<And>i. 0 \<le> i \<Longrightarrow> i < sample_count * channels v \<Longrightarrow> b i = real_of_int (sint (outbuf i))"
    unfolding k by blast
  have "fold (\<lambda>s ob. ob (s := clamp16 (float_to_int32 (b s))))
          [0..sample_count * channels v - 1] outbuf = outbuf"
    using fold_store_apply [of 0 "\<lambda>s. clamp16 (float_to_int32 (b s))"
            "[0..sample_count * channels v - 1]" outbuf]
    by (auto simp: fun_eq_iff bi clamp16_roundtrip simp del: of_int_sint)
  then show ?thesis
    by (simp add: mix_pass_def b out)
qed

text \<open>The pass on a call of one sample: the frame is copied into the row at offset 0, the chain
  is applied to it, and the first \<open>output_channels\<close> cells are written back, truncated and
  clamped.\<close>

lemma mix_pass_one_sample:
  "fst (mix_pass outbuf 1 v data cp) i =
     (if 0 \<le> i \<and> i < output_channels data then
        clamp16 (float_to_int32
          (fst (fold (mix_command (int32 cp) 0) (mixing_chain data)
                  (\<lambda>j. if 0 \<le> j \<and> j < channels v then real_of_int (sint (outbuf j))
                        else mixbuf data j,
                   channels v)) i))
      else outbuf i)"
proof -
  have row: "fold (\<lambda>ch b. b (0 + ch := real_of_int (sint (outbuf (0 + ch)))))
               [0..channels v - 1] (mixbuf data) =
             (\<lambda>j. if 0 \<le> j \<and> j < channels v then real_of_int (sint (outbuf j)) else mixbuf data j)"
    using fold_store_apply [of 0 "\<lambda>ch. real_of_int (sint (outbuf ch))"
            "[0..channels v - 1]" "mixbuf data"]
    by (auto simp: fun_eq_iff simp del: of_int_sint)
  obtain b n where bn: "fold (mix_command (int32 cp) 0) (mixing_chain data)
      (\<lambda>j. if 0 \<le> j \<and> j < channels v then real_of_int (sint (outbuf j)) else mixbuf data j,
       channels v) = (b, n)"
    by (cases "fold (mix_command (int32 cp) 0) (mixing_chain data)
      (\<lambda>j. if 0 \<le> j \<and> j < channels v then real_of_int (sint (outbuf j)) else mixbuf data j,
       channels v)")
  have loop: "mix_sample v data outbuf cp 0 (mixbuf data, 0, 0) = (b, n, channels v)"
    using row bn by (simp add: mix_sample_def Let_def del: of_int_sint)
  show ?thesis
    using fold_store_apply [of 0 "\<lambda>s. clamp16 (float_to_int32 (b s))"
            "[0..output_channels data - 1]" outbuf i]
    by (simp add: mix_pass_def loop bn Let_def)
qed

lemma is_active_chain_non_fade:
  "\<exists>m \<in> set chain. command m \<noteq> MIX_FADE \<Longrightarrow> is_active_chain chain cs ce"
  by (induction chain) (auto simp: Let_def)

lemma is_active_chain_fades:
  "\<forall>m \<in> set chain. command m = MIX_FADE \<and>
       \<not> (cs < (if time_post m < 0 then INT_MAX else time_post m) \<and>
          ce > (if time_pre m < 0 then 0 else time_pre m)) \<Longrightarrow>
     \<not> is_active_chain chain cs ce"
  by (induction chain) (auto simp: Let_def)

lemma window_overlap:
  assumes "cs < ce"
    and nonempty: "time_post m < 0 \<or> (if time_pre m < 0 then 0 else time_pre m) < time_post m"
    and disjoint: "\<forall>p. cs \<le> p \<and> p < ce \<longrightarrow> \<not> fade_window m p"
  shows "\<not> (cs < (if time_post m < 0 then INT_MAX else time_post m) \<and>
            ce > (if time_pre m < 0 then 0 else time_pre m))"
proof
  assume a: "cs < (if time_post m < 0 then INT_MAX else time_post m) \<and>
             ce > (if time_pre m < 0 then 0 else time_pre m)"
  define p where "p = max cs (if time_pre m < 0 then 0 else time_pre m)"
  have "cs \<le> p \<and> p < ce"
    using assms(1) a by (auto simp: p_def)
  moreover have "fade_window m p"
    using a nonempty by (auto simp: p_def fade_window_def split: if_splits)
  ultimately show False
    using disjoint by blast
qed

text \<open>
  C5 (as stated, fails). A 2-channel stream is initialised, \<open>mixing_update_channel\<close> raises both
  counters to 3, a fade with the empty window \<open>[1, 1)\<close> is appended and mixing is activated.
  The chain holds only this fade and neither position of the call's range \<open>[0, 2)\<close> is in its
  window, yet the activity check lets the call through (the test \<open>0 < 1\<close> and \<open>2 > 1\<close> holds)
  and the write-back of \<open>2 \<times> 3\<close> cells changes sample 4 of the output buffer.
\<close>

lemma example_update_channel_state:
  "mixing_setup (mixing_push_fade (mixing_update_channel (mixing_init (example_stream 2) True))
       (- 1) 0 1 (CHR ''T'') 1 1 1 1) 1024 True
   = (example_stream 2) \<lparr> mixing_data := Some
        \<lparr> mixing_channels = 3, output_channels = 3, mixing_on = True, mixing_size = 128,
          mixing_chain = [mix_zero \<lparr> command := MIX_FADE, ch_dst := - 1, vol_start := 0,
            vol_end := 1, shape := CHR ''T'', time_pre := 1, time_start := 1,
            time_end := 1, time_post := 1 \<rparr>],
          mixbuf = (\<lambda>_. 0) \<rparr> \<rparr>"
  by (simp add: mixing_push_fade_def mixing_init_def mixing_setup_def mixing_update_channel_def
        example_stream_def get_last_fade_def add_mixing_def mixing_count_def
        VGMSTREAM_MAX_MIXING_def Let_def)

theorem mix_vgmstream_activity_counterexample:
  "map_option mixing_on (mixing_data
      (mixing_setup (mixing_push_fade (mixing_update_channel (mixing_init (example_stream 2) True))
         (- 1) 0 1 (CHR ''T'') 1 1 1 1) 1024 True)) = Some True
   \<and> map_option mixing_chain (mixing_data
      (mixing_setup (mixing_push_fade (mixing_update_channel (mixing_init (example_stream 2) True))
         (- 1) 0 1 (CHR ''T'') 1 1 1 1) 1024 True))
       = Some [mix_zero \<lparr> command := MIX_FADE, ch_dst := - 1, vol_start := 0, vol_end := 1,
                 shape := CHR ''T'', time_pre := 1, time_start := 1, time_end := 1,
                 time_post := 1 \<rparr>]
   \<and> get_current_pos
      (mixing_setup (mixing_push_fade (mixing_update_channel (mixing_init (example_stream 2) True))
         (- 1) 0 1 (CHR ''T'') 1 1 1 1) 1024 True) = 0
   \<and> \<not> fade_window (mix_zero \<lparr> command := MIX_FADE, ch_dst := - 1, vol_start := 0, vol_end := 1,
          shape := CHR ''T'', time_pre := 1, time_start := 1, time_end := 1, time_post := 1 \<rparr>) 0
   \<and> \<not> fade_window (mix_zero \<lparr> command := MIX_FADE, ch_dst := - 1, vol_start := 0, vol_end := 1,
          shape := CHR ''T'', time_pre := 1, time_start := 1, time_end := 1, time_post := 1 \<rparr>) 1
   \<and> fst (mix_vgmstream word_of_int 2
        (mixing_setup (mixing_push_fade (mixing_update_channel (mixing_init (example_stream 2) True))
           (- 1) 0 1 (CHR ''T'') 1 1 1 1) 1024 True)) 4 = 0
   \<and> (word_of_int 4 :: sample_t) \<noteq> 0"
  unfolding example_update_channel_state
  by (simp add: example_stream_def mix_zero_def fade_window_def get_current_pos_def int32_def
        mix_vgmstream_def mixing_count_def is_active_def INT_MAX_def mix_pass_def mix_sample_def
        mix_command_def get_fade_gain_def float_to_int32_def clamp16_def upto_rec1 Let_def)

text \<open>
  C5 (amended). Take an activated state whose chain holds only fades, and a call whose sample
  range \<open>[current_pos, current_pos + sample_count)\<close> ends inside the 32-bit range and meets no
  fade's effective window.
  \<^item> If the call is not empty and no fade's window is empty, \<open>mix_vgmstream\<close> returns at the
    activity check: output buffer and state are as they were.
  \<^item> If a window may be empty the activity check can let the call through; the output buffer
    is still the same afterwards when the position is not negative, the fades are ordered as
    the constructor stores them, and \<open>output_channels\<close> equals the stream's channel count.
  \<^item> Conversely, when the chain holds any command that is not a fade, the activity check
    succeeds and \<open>mix_vgmstream\<close> performs the per-sample pass; on a call of one sample every
    output sample below \<open>output_channels\<close> is the truncated, clamped lane that the chain leaves
    when applied to the input frame, and no other sample changes.
\<close>

theorem mix_vgmstream_activity:
  assumes "mixing_data v = Some data" and "mixing_on data"
  shows "((\<forall>m \<in> set (mixing_chain data). command m = MIX_FADE \<and>
             (time_post m < 0 \<or> (if time_pre m < 0 then 0 else time_pre m) < time_post m) \<and>
             (\<forall>p. get_current_pos v \<le> p \<and> p < get_current_pos v + sample_count \<longrightarrow>
                  \<not> fade_window m p)) \<and>
          0 < sample_count \<and> get_current_pos v + sample_count \<le> INT_MAX \<longrightarrow>
            mix_vgmstream outbuf sample_count v = (outbuf, v))
       \<and> ((\<forall>m \<in> set (mixing_chain data). command m = MIX_FADE \<and> fade_ordered m \<and>
             (\<forall>p. get_current_pos v \<le> p \<and> p < get_current_pos v + sample_count \<longrightarrow>
                  \<not> fade_window m p)) \<and>
          0 \<le> get_current_pos v \<and> 0 \<le> sample_count \<and>
          get_current_pos v + sample_count \<le> INT_MAX \<and> output_channels data = channels v \<longrightarrow>
            fst (mix_vgmstream outbuf sample_count v) = outbuf)
       \<and> ((\<exists>m \<in> set (mixing_chain data). command m \<noteq> MIX_FADE) \<longrightarrow>
            is_active data (get_current_pos v) (int32 (get_current_pos v + sample_count)) \<and>
            mix_vgmstream outbuf sample_count v
              = mix_pass outbuf sample_count v data (get_current_pos v) \<and>
            (\<forall>i. fst (mix_vgmstream outbuf 1 v) i =
               (if 0 \<le> i \<and> i < output_channels data then
                  clamp16 (float_to_int32
                    (fst (fold (mix_command (get_current_pos v) 0) (mixing_chain data)
                            (\<lambda>j. if 0 \<le> j \<and> j < channels v then real_of_int (sint (outbuf j))
                                  else mixbuf data j,
                             channels v)) i))
                else outbuf i)))"
proof (intro conjI impI allI)
  assume b: "(\<forall>m \<in> set (mixing_chain data). command m = MIX_FADE \<and>
             (time_post m < 0 \<or> (if time_pre m < 0 then 0 else time_pre m) < time_post m) \<and>
             (\<forall>p. get_current_pos v \<le> p \<and> p < get_current_pos v + sample_count \<longrightarrow>
                  \<not> fade_window m p)) \<and>
          0 < sample_count \<and> get_current_pos v + sample_count \<le> INT_MAX"
  then have wrap: "int32 (get_current_pos v + sample_count) = get_current_pos v + sample_count"
    using get_current_pos_range [of v] by (intro int32_id) (simp_all add: INT_MAX_def)
  have "\<not> is_active_chain (mixing_chain data) (get_current_pos v) (get_current_pos v + sample_count)"
  proof (rule is_active_chain_fades, intro ballI conjI)
    fix m
    assume m: "m \<in> set (mixing_chain data)"
    with b show "command m = MIX_FADE" by simp
    from b m show "\<not> (get_current_pos v < (if time_post m < 0 then INT_MAX else time_post m) \<and>
            get_current_pos v + sample_count > (if time_pre m < 0 then 0 else time_pre m))"
      by (intro window_overlap) simp_all
  qed
  then show "mix_vgmstream outbuf sample_count v = (outbuf, v)"
    using assms by (simp add: mix_vgmstream_def Let_def is_active_def wrap)
next
  assume a: "(\<forall>m \<in> set (mixing_chain data). command m = MIX_FADE \<and> fade_ordered m \<and>
             (\<forall>p. get_current_pos v \<le> p \<and> p < get_current_pos v + sample_count \<longrightarrow>
                  \<not> fade_window m p)) \<and>
          0 \<le> get_current_pos v \<and> 0 \<le> sample_count \<and>
          get_current_pos v + sample_count \<le> INT_MAX \<and> output_channels data = channels v"
  have idle: "\<forall>s. 0 \<le> s \<and> s < sample_count \<longrightarrow>
      (\<forall>m \<in> set (mixing_chain data).
          command m = MIX_FADE \<and> get_fade_gain m (int32 (get_current_pos v + s)) = None)"
  proof (intro allI impI ballI)
    fix s m
    assume s: "0 \<le> s \<and> s < sample_count" and m: "m \<in> set (mixing_chain data)"
    have wrap: "int32 (get_current_pos v + s) = get_current_pos v + s"
      using a s by (intro int32_id) (simp_all add: INT_MAX_def)
    from a m have "command m = MIX_FADE" and "fade_ordered m"
      and "\<not> fade_window m (get_current_pos v + s)"
      using s by auto
    moreover have "0 \<le> get_current_pos v + s"
      using a s by simp
    ultimately show "command m = MIX_FADE \<and>
        get_fade_gain m (int32 (get_current_pos v + s)) = None"
      by (simp add: wrap get_fade_gain_outside_window)
  qed
  have "fst (mix_pass outbuf sample_count v data (get_current_pos v)) = outbuf"
    using idle a by (intro mix_pass_idle) simp_all
  then show "fst (mix_vgmstream outbuf sample_count v) = outbuf"
    using assms by (simp add: mix_vgmstream_def Let_def)
next
  assume c: "\<exists>m \<in> set (mixing_chain data). command m \<noteq> MIX_FADE"
  then show act: "is_active data (get_current_pos v) (int32 (get_current_pos v + sample_count))"
    by (simp add: is_active_def is_active_chain_non_fade)
  from c have count: "mixing_count data \<noteq> 0"
    by (auto simp: mixing_count_def)
  with act show "mix_vgmstream outbuf sample_count v
                   = mix_pass outbuf sample_count v data (get_current_pos v)"
    using assms by (simp add: mix_vgmstream_def Let_def)
  fix i
  have wrap: "int32 (get_current_pos v) = get_current_pos v"
    using get_current_pos_range [of v] by (intro int32_id) simp_all
  from c have "is_active data (get_current_pos v) (int32 (get_current_pos v + 1))"
    by (simp add: is_active_def is_active_chain_non_fade)
  with count have "mix_vgmstream outbuf 1 v = mix_pass outbuf 1 v data (get_current_pos v)"
    using assms by (simp add: mix_vgmstream_def Let_def)
  then show "fst (mix_vgmstream outbuf 1 v) i =
               (if 0 \<le> i \<and> i < output_channels data then
                  clamp16 (float_to_int32
                    (fst (fold (mix_command (get_current_pos v) 0) (mixing_chain data)
                            (\<lambda>j. if 0 \<le> j \<and> j < channels v then real_of_int (sint (outbuf j))
                                  else mixbuf data j,
                             channels v)) i))
                else outbuf i)"
    using mix_pass_one_sample [of outbuf v data "get_current_pos v" i] by (simp add: wrap)
qed

text \<open>Three activated 2-channel states: one fade-out whose window starts at sample 1000, one
  fade with the empty window \<open>[5, 5)\<close>, and a single swap.\<close>

lemma example_late_fade_state:
  "mixing_setup (mixing_push_fade (mixing_init (example_stream 2) True)
       (- 1) 1 0 (CHR ''T'') 1000 1000 2000 (- 1)) 1024 True
   = (example_stream 2) \<lparr> mixing_data := Some
        \<lparr> mixing_channels = 2, output_channels = 2, mixing_on = True, mixing_size = 128,
          mixing_chain = [mix_zero \<lparr> command := MIX_FADE, ch_dst := - 1, vol_start := 1,
            vol_end := 0, shape := CHR ''T'', time_pre := 1000, time_start := 1000,
            time_end := 2000, time_post := - 1 \<rparr>],
          mixbuf = (\<lambda>_. 0) \<rparr> \<rparr>"
  by (simp add: mixing_push_fade_def mixing_init_def mixing_setup_def example_stream_def
        get_last_fade_def add_mixing_def mixing_count_def VGMSTREAM_MAX_MIXING_def Let_def)

lemma example_swap_state:
  "mixing_setup (mixing_push_swap (mixing_init (example_stream 2) True) 0 1) 1024 True
   = (example_stream 2) \<lparr> mixing_data := Some
        \<lparr> mixing_channels = 2, output_channels = 2, mixing_on = True, mixing_size = 128,
          mixing_chain = [mix_zero \<lparr> command := MIX_SWAP, ch_dst := 0, ch_src := 1 \<rparr>],
          mixbuf = (\<lambda>_. 0) \<rparr> \<rparr>"
  by (simp add: mixing_push_swap_def mixing_init_def mixing_setup_def example_stream_def
        add_mixing_def mixing_count_def VGMSTREAM_MAX_MIXING_def Let_def)

lemma example_empty_fade_state:
  "mixing_setup (mixing_push_fade (mixing_init (example_stream 2) True)
       (- 1) 0 1 (CHR ''T'') 5 5 5 5) 1024 True
   = (example_stream 2) \<lparr> mixing_data := Some
        \<lparr> mixing_channels = 2, output_channels = 2, mixing_on = True, mixing_size = 128,
          mixing_chain = [mix_zero \<lparr> command := MIX_FADE, ch_dst := - 1, vol_start := 0,
            vol_end := 1, shape := CHR ''T'', time_pre := 5, time_start := 5,
            time_end := 5, time_post := 5 \<rparr>],
          mixbuf = (\<lambda>_. 0) \<rparr> \<rparr>"
  by (simp add: mixing_push_fade_def mixing_init_def mixing_setup_def example_stream_def
        get_last_fade_def add_mixing_def mixing_count_def VGMSTREAM_MAX_MIXING_def Let_def)

theorem mix_vgmstream_activity_witness:
  "mix_vgmstream (\<lambda>i. if i = 0 then 100 else 200) 16
      (mixing_setup (mixing_push_fade (mixing_init (example_stream 2) True)
         (- 1) 1 0 (CHR ''T'') 1000 1000 2000 (- 1)) 1024 True)
     = (\<lambda>i. if i = 0 then 100 else 200,
        mixing_setup (mixing_push_fade (mixing_init (example_stream 2) True)
         (- 1) 1 0 (CHR ''T'') 1000 1000 2000 (- 1)) 1024 True)
   \<and> is_active
        \<lparr> mixing_channels = 2, output_channels = 2, mixing_on = True, mixing_size = 128,
          mixing_chain = [mix_zero \<lparr> command := MIX_FADE, ch_dst := - 1, vol_start := 0,
            vol_end := 1, shape := CHR ''T'', time_pre := 5, time_start := 5,
            time_end := 5, time_post := 5 \<rparr>],
          mixbuf = (\<lambda>_. 0) \<rparr> 0 16
   \<and> fst (mix_vgmstream (\<lambda>i. if i = 0 then 100 else 200) 16
      (mixing_setup (mixing_push_fade (mixing_init (example_stream 2) True)
         (- 1) 0 1 (CHR ''T'') 5 5 5 5) 1024 True))
     = (\<lambda>i. if i = 0 then 100 else 200)
   \<and> fst (mix_vgmstream (\<lambda>i. if i = 0 then 100 else 200) 1
      (mixing_setup (mixing_push_swap (mixing_init (example_stream 2) True) 0 1) 1024 True)) 0
     = 200
   \<and> fst (mix_vgmstream (\<lambda>i. if i = 0 then 100 else 200) 1
      (mixing_setup (mixing_push_swap (mixing_init (example_stream 2) True) 0 1) 1024 True)) 1
     = 100"
proof -
  let ?fade = "\<lparr> mixing_channels = 2, output_channels = 2, mixing_on = True, mixing_size = 128,
          mixing_chain = [mix_zero \<lparr> command := MIX_FADE, ch_dst := - 1, vol_start := 1,
            vol_end := 0, shape := CHR ''T'', time_pre := 1000, time_start := 1000,
            time_end := 2000, time_post := - 1 \<rparr>],
          mixbuf = (\<lambda>_. 0) \<rparr>"
  let ?empty = "\<lparr> mixing_channels = 2, output_channels = 2, mixing_on = True, mixing_size = 128,
          mixing_chain = [mix_zero \<lparr> command := MIX_FADE, ch_dst := - 1, vol_start := 0,
            vol_end := 1, shape := CHR ''T'', time_pre := 5, time_start := 5,
            time_end := 5, time_post := 5 \<rparr>],
          mixbuf = (\<lambda>_. 0) \<rparr>"
  let ?swap = "\<lparr> mixing_channels = 2, output_channels = 2, mixing_on = True, mixing_size = 128,
          mixing_chain = [mix_zero \<lparr> command := MIX_SWAP, ch_dst := 0, ch_src := 1 \<rparr>],
          mixbuf = (\<lambda>_. 0) \<rparr>"
  have f: "mixing_data ((example_stream 2) \<lparr> mixing_data := Some ?fade \<rparr>) = Some ?fade"
    and fo: "mixing_on ?fade"
    and e: "mixing_data ((example_stream 2) \<lparr> mixing_data := Some ?empty \<rparr>) = Some ?empty"
    and eo: "mixing_on ?empty"
    and s: "mixing_data ((example_stream 2) \<lparr> mixing_data := Some ?swap \<rparr>) = Some ?swap"
    and so: "mixing_on ?swap"
    by simp_all
  have pos: "get_current_pos ((example_stream 2) \<lparr> mixing_data := d \<rparr>) = 0" for d
    by (simp add: get_current_pos_def example_stream_def int32_def)
  have chn: "channels ((example_stream 2) \<lparr> mixing_data := d \<rparr>) = 2" for d
    by (simp add: example_stream_def)
  have act: "is_active ?empty 0 16"
    by (simp add: is_active_def mix_zero_def)
  have late: "mix_vgmstream (\<lambda>i. if i = 0 then 100 else 200) 16
                ((example_stream 2) \<lparr> mixing_data := Some ?fade \<rparr>)
              = (\<lambda>i. if i = 0 then 100 else 200, (example_stream 2) \<lparr> mixing_data := Some ?fade \<rparr>)"
    using mix_vgmstream_activity [OF f fo, of 16 "\<lambda>i. if i = 0 then 100 else 200"]
    by (simp add: pos fade_window_def mix_zero_def INT_MAX_def)
  have empty: "fst (mix_vgmstream (\<lambda>i. if i = 0 then 100 else 200) 16
                ((example_stream 2) \<lparr> mixing_data := Some ?empty \<rparr>))
              = (\<lambda>i. if i = 0 then 100 else 200)"
    using mix_vgmstream_activity [OF e eo, of 16 "\<lambda>i. if i = 0 then 100 else 200"]
    by (simp add: pos chn fade_window_def fade_ordered_def mix_zero_def INT_MAX_def)
  have swap: "fst (mix_vgmstream (\<lambda>i. if i = 0 then 100 else 200) 1
                ((example_stream 2) \<lparr> mixing_data := Some ?swap \<rparr>)) 0 = 200
            \<and> fst (mix_vgmstream (\<lambda>i. if i = 0 then 100 else 200) 1
                ((example_stream 2) \<lparr> mixing_data := Some ?swap \<rparr>)) 1 = 100"
  proof -
    have c: "\<exists>m \<in> set (mixing_chain ?swap). command m \<noteq> MIX_FADE"
      by simp
    note pass = mix_vgmstream_activity [OF s so, of 1 "\<lambda>i. if i = 0 then 100 else 200",
        THEN conjunct2, THEN conjunct2, rule_format, OF c,
        THEN conjunct2, THEN conjunct2, rule_format]
    show ?thesis
      unfolding pass
      by (simp add: pos chn mix_zero_def mix_command_def float_to_int32_def clamp16_def)
  qed
  show ?thesis
    unfolding example_late_fade_state example_swap_state example_empty_fade_state
    using act late empty swap by simp
qed

subsection \<open>Stored fades are ordered\<close>

text \<open>The hypothesis \<open>fade_ordered\<close> of the activity theorem holds for every fade that the
  constructor stores, also after a later fade on the same channel was stitched to it.\<close>

lemma get_last_fade_from_Some:
  "get_last_fade_from chain n tc = Some i \<Longrightarrow> i < n \<and> command (chain ! i) = MIX_FADE"
  by (induction n) (auto split: if_splits simp: less_Suc_eq)

lemma fade_stitch_ordered:
  assumes "fade_stitch mix_prev mix = (p1, m1)"
    and "fade_ordered mix_prev" "0 \<le> time_end mix_prev" "fade_ordered mix" "0 \<le> time_end mix"
    and "\<not> (time_end mix_prev > time_start mix \<or>
            (time_post mix_prev \<ge> 0 \<and> time_post mix_prev > time_start mix) \<or>
            (time_pre mix \<ge> 0 \<and> time_pre mix < time_end mix_prev))"
  shows "fade_ordered p1 \<and> 0 \<le> time_end p1 \<and> fade_ordered m1 \<and> 0 \<le> time_end m1"
  using assms
  by (auto simp: fade_stitch_def fade_ordered_def Let_def split: if_splits)

lemma chain_ordered_add_mixing:
  "chain_ordered v \<Longrightarrow> (command m = MIX_FADE \<longrightarrow> fade_ordered m \<and> 0 \<le> time_end m) \<Longrightarrow>
     chain_ordered (snd (add_mixing v m))"
  by (auto simp: chain_ordered_def add_mixing_def split: option.splits)

lemma chain_ordered_update:
  assumes "chain_ordered v" and "mixing_data v = Some data"
    and "fade_ordered p1 \<and> 0 \<le> time_end p1"
  shows "chain_ordered (v \<lparr> mixing_data := Some (data \<lparr> mixing_chain := (mixing_chain data) [i := p1] \<rparr>) \<rparr>)"
proof -
  have "set ((mixing_chain data) [i := p1]) \<subseteq> insert p1 (set (mixing_chain data))"
    by (rule set_update_subset_insert)
  then show ?thesis
    using assms by (auto simp: chain_ordered_def)
qed

lemma chain_ordered_push_fade:
  assumes "chain_ordered v"
  shows "chain_ordered (mixing_push_fade v a vs ve sh t1 t2 t3 t4)"
proof (cases "mixing_data v")
  case None
  then show ?thesis using assms by (simp add: mixing_push_fade_def)
next
  case (Some data)
  define sh2 where "sh2 =
    (if (if sh = CHR ''{'' \<or> sh = CHR ''}'' then CHR ''E'' else sh) = CHR ''('' \<or>
        (if sh = CHR ''{'' \<or> sh = CHR ''}'' then CHR ''E'' else sh) = CHR '')''
     then CHR ''H'' else (if sh = CHR ''{'' \<or> sh = CHR ''}'' then CHR ''E'' else sh))"
  define mix where "mix = mix_zero \<lparr> command := MIX_FADE, ch_dst := a, vol_start := vs,
     vol_end := ve, shape := sh2, time_pre := t1, time_start := t2, time_end := t3,
     time_post := t4 \<rparr>"
  show ?thesis
  proof (cases "a \<ge> output_channels data \<or> (t1 > t2 \<or> t2 > t3 \<or> (t4 \<ge> 0 \<and> t3 > t4)) \<or>
                (t2 < 0 \<or> t3 < 0)")
    case True
    then show ?thesis using assms Some by (auto simp: mixing_push_fade_def)
  next
    case False
    then have mix_ok: "fade_ordered mix \<and> 0 \<le> time_end mix"
      by (auto simp: mix_def fade_ordered_def)
    have plain: "chain_ordered (snd (add_mixing v mix))"
      using assms mix_ok by (simp add: chain_ordered_add_mixing)
    have c1: "\<not> a \<ge> output_channels data"
      and c2: "\<not> (t1 > t2 \<or> t2 > t3 \<or> (t4 \<ge> 0 \<and> t3 > t4))"
      and c3: "\<not> (t2 < 0 \<or> t3 < 0)"
      using False by auto
    have eq: "mixing_push_fade v a vs ve sh t1 t2 t3 t4 =
      (case get_last_fade data (ch_dst mix) of
         None \<Rightarrow> snd (add_mixing v mix)
       | Some i \<Rightarrow>
           let mix_prev = mixing_chain data ! i
           in if time_post mix_prev < 0 \<or> time_pre mix < 0 then
                if \<not> (time_end mix_prev > time_start mix \<or>
                       (time_post mix_prev \<ge> 0 \<and> time_post mix_prev > time_start mix) \<or>
                       (time_pre mix \<ge> 0 \<and> time_pre mix < time_end mix_prev))
                then (case fade_stitch mix_prev mix of
                        (mix_prev1, mix1) \<Rightarrow>
                          snd (add_mixing
                            (v \<lparr> mixing_data := Some
                               (data \<lparr> mixing_chain := (mixing_chain data) [i := mix_prev1] \<rparr>) \<rparr>)
                            mix1))
                else snd (add_mixing v mix)
              else snd (add_mixing v mix))"
      unfolding mixing_push_fade_def mix_def sh2_def Let_def
      by (simp only: Some option.case c1 c2 c3 if_False)
    show ?thesis
    proof (cases "get_last_fade data (ch_dst mix)")
      case None
      then show ?thesis by (simp add: eq plain)
    next
      case (Some i)
      then have i: "i < length (mixing_chain data)" "command (mixing_chain data ! i) = MIX_FADE"
        using get_last_fade_from_Some [of "mixing_chain data" "length (mixing_chain data)" "ch_dst mix" i]
        by (simp_all add: get_last_fade_def)
      then have prev_ok: "fade_ordered (mixing_chain data ! i) \<and> 0 \<le> time_end (mixing_chain data ! i)"
        using assms \<open>mixing_data v = Some data\<close> by (auto simp: chain_ordered_def)
      show ?thesis
      proof (cases "(time_post (mixing_chain data ! i) < 0 \<or> time_pre mix < 0) \<and>
                    \<not> (time_end (mixing_chain data ! i) > time_start mix \<or>
                       (time_post (mixing_chain data ! i) \<ge> 0 \<and>
                        time_post (mixing_chain data ! i) > time_start mix) \<or>
                       (time_pre mix \<ge> 0 \<and> time_pre mix < time_end (mixing_chain data ! i)))")
        case False
        then show ?thesis
          using plain by (auto simp: eq Some Let_def)
      next
        case True
        obtain p1 m1 where st: "fade_stitch (mixing_chain data ! i) mix = (p1, m1)"
          by (cases "fade_stitch (mixing_chain data ! i) mix")
        from fade_stitch_ordered [OF st] prev_ok mix_ok True
        have ok: "fade_ordered p1 \<and> 0 \<le> time_end p1" "fade_ordered m1 \<and> 0 \<le> time_end m1"
          by simp_all
        have "chain_ordered (snd (add_mixing
                (v \<lparr> mixing_data := Some
                   (data \<lparr> mixing_chain := (mixing_chain data) [i := p1] \<rparr>) \<rparr>) m1))"
          using ok assms \<open>mixing_data v = Some data\<close>
          by (intro chain_ordered_add_mixing chain_ordered_update) simp_all
        then show ?thesis
          using True by (simp add: eq Some Let_def st)
      qed
    qed
  qed
qed

lemma chain_ordered_init:
  "chain_ordered (mixing_init s True)"
  by (simp add: chain_ordered_def mixing_init_def)

lemma chain_ordered_builders:
  assumes "chain_ordered v"
  shows "chain_ordered (mixing_push_swap v a b)"
    and "chain_ordered (mixing_push_add v a b vl)"
    and "chain_ordered (mixing_push_volume v a vl)"
    and "chain_ordered (mixing_push_limit v a vl)"
    and "chain_ordered (mixing_push_upmix mc v a)"
    and "chain_ordered (mixing_push_downmix v a)"
    and "chain_ordered (mixing_push_killmix v a)"
    and "chain_ordered (mixing_setup v n ok)"
  using assms
  by (auto simp: mixing_push_swap_def mixing_push_add_def mixing_push_volume_def
        mixing_push_limit_def mixing_push_upmix_def mixing_push_downmix_def
        mixing_push_killmix_def mixing_setup_def add_mixing_def chain_ordered_def Let_def
        split: option.splits if_splits)

subsection \<open>Output width of a chain of fades\<close>

text \<open>The hypothesis \<open>output_channels = channels\<close> of the activity theorem holds after
  initialisation and is kept by the fade constructor and by activation; it is
  \<open>mixing_update_channel\<close> (and the commands that insert or remove channels) that change it.\<close>

lemma width_initial_add_mixing:
  "width_initial v \<Longrightarrow> width_initial (snd (add_mixing v m))"
  by (auto simp: width_initial_def add_mixing_def split: option.splits)

lemma width_initial_chain_update:
  "mixing_data v = Some data \<Longrightarrow> width_initial v \<Longrightarrow>
     width_initial (v \<lparr> mixing_data := Some (data \<lparr> mixing_chain := c \<rparr>) \<rparr>)"
  by (simp add: width_initial_def)

lemma width_initial_init:
  "width_initial (mixing_init s True)"
  by (simp add: width_initial_def mixing_init_def)

lemma width_initial_push_fade:
  "width_initial v \<Longrightarrow> width_initial (mixing_push_fade v a vs ve sh t1 t2 t3 t4)"
  by (simp add: mixing_push_fade_def Let_def width_initial_add_mixing width_initial_chain_update
        if_distrib [of width_initial] split: option.split prod.split split del: if_split cong: if_cong)

lemma width_initial_setup:
  "width_initial v \<Longrightarrow> width_initial (mixing_setup v n ok)"
  by (auto simp: width_initial_def mixing_setup_def Let_def split: option.splits)

end
